(* ===== verification/Prelude.thy ===== *)
theory Prelude
  imports Main "HOL-Library.AList" "HOL-Library.Sublist"
begin

text \<open>
  Shared vocabulary of the development. Python raises exceptions where HOL
  functions are total; every raise of the modelled code is a value of
  \<open>py_error\<close>, and a fallible computation returns \<open>py_error + 'a\<close>
  (\<open>Inl\<close> the exception, \<open>Inr\<close> the value). \<open>bind_res\<close> sequences two
  fallible steps the way consecutive Python statements do: the first exception
  stops the rest. \<open>traverse_res\<close> is a list comprehension
  \<open>[f(x) for x in xs]\<close> whose element computation may raise, and
  \<open>py_getitem\<close> is Python's \<open>xs[i]\<close> for a non-negative index.
  The named collections gather the equations component proofs unfold.
\<close>

named_theorems res_simps "equations of fallible computations"
named_theorems frame_simps "equations of the data-frame operations"
named_theorems pystr_simps "equations of the Python string operations"

subsection \<open>Exceptions\<close>

text \<open>
  The exceptions the modelled code can raise. \<open>DeltaKeysNotFound\<close> is the
  \<open>ValueError\<close> that \<open>apply_instrument_deltas\<close> raises with the list of unknown
  delta keys; \<open>ValueError\<close> is any other value error with the offending text;
  \<open>HTTPError\<close> is the exception of \<open>requests.Response.raise_for_status\<close>
  with its status code; \<open>NameError\<close> names a global that was never bound;
  \<open>ValidationError\<close> is pydantic's, with the location of the invalid input;
  \<open>AttributeError\<close> names an attribute read on \<open>None\<close>.
\<close>

datatype py_error =
    DeltaKeysNotFound "string list"
  | ValueError string
  | KeyError string
  | IndexError
  | TypeError
  | HTTPError nat
  | NameError string
  | ValidationError string
  | AttributeError string

type_synonym 'a result = "py_error + 'a"

definition bind_res :: "'a result \<Rightarrow> ('a \<Rightarrow> 'b result) \<Rightarrow> 'b result" where
  "bind_res r f = (case r of Inl e \<Rightarrow> Inl e | Inr x \<Rightarrow> f x)"

fun traverse_res :: "('a \<Rightarrow> 'b result) \<Rightarrow> 'a list \<Rightarrow> 'b list result" where
  "traverse_res f [] = Inr []"
| "traverse_res f (x # xs) =
     bind_res (f x) (\<lambda>y. bind_res (traverse_res f xs) (\<lambda>ys. Inr (y # ys)))"

definition py_getitem :: "'a list \<Rightarrow> nat \<Rightarrow> 'a result" where
  "py_getitem xs i = (if i < length xs then Inr (xs ! i) else Inl IndexError)"

subsection \<open>Sequencing\<close>

lemma bind_res_Inl [simp, res_simps]: "bind_res (Inl e) f = Inl e"
  by (simp add: bind_res_def)

lemma bind_res_Inr [simp, res_simps]: "bind_res (Inr x) f = f x"
  by (simp add: bind_res_def)

lemma bind_res_eq_Inr [res_simps]:
  "bind_res r f = Inr y \<longleftrightarrow> (\<exists>x. r = Inr x \<and> f x = Inr y)"
  by (cases r) auto

lemma bind_res_eq_Inl [res_simps]:
  "bind_res r f = Inl e \<longleftrightarrow> r = Inl e \<or> (\<exists>x. r = Inr x \<and> f x = Inl e)"
  by (cases r) auto

subsection \<open>List comprehensions that may raise\<close>

text \<open>
  A comprehension succeeds exactly when every element succeeds, and then it is
  the list of the element results; otherwise it raises the exception of the
  first element that fails, after all the elements before it succeeded.
\<close>

lemma traverse_res_Inr_iff:
  "traverse_res f xs = Inr ys \<longleftrightarrow> list_all2 (\<lambda>x y. f x = Inr y) xs ys"
proof (induction xs arbitrary: ys)
  case Nil
  then show ?case by auto
next
  case (Cons x xs)
  then show ?case
    by (cases ys) (auto simp: bind_res_eq_Inr)
qed

lemma traverse_res_map_Inr [simp]: "traverse_res (\<lambda>x. Inr (g x)) xs = Inr (map g xs)"
  by (induction xs) simp_all

lemma traverse_res_length:
  "traverse_res f xs = Inr ys \<Longrightarrow> length ys = length xs"
  by (simp add: traverse_res_Inr_iff list_all2_lengthD)

lemma traverse_res_Inl_first:
  "traverse_res f xs = Inl e \<longleftrightarrow>
     (\<exists>i < length xs. f (xs ! i) = Inl e \<and> (\<forall>j < i. \<exists>y. f (xs ! j) = Inr y))"
proof (induction xs)
  case Nil
  then show ?case by simp
next
  case (Cons x xs)
  show ?case
  proof (cases "f x")
    case (Inl e')
    have "(\<exists>i < length (x # xs). f ((x # xs) ! i) = Inl e \<and>
            (\<forall>j < i. \<exists>y. f ((x # xs) ! j) = Inr y)) \<longleftrightarrow> f x = Inl e"
    proof
      assume "\<exists>i < length (x # xs). f ((x # xs) ! i) = Inl e \<and>
                (\<forall>j < i. \<exists>y. f ((x # xs) ! j) = Inr y)"
      then obtain i where i: "f ((x # xs) ! i) = Inl e" "\<forall>j < i. \<exists>y. f ((x # xs) ! j) = Inr y"
        by blast
      have "i = 0"
      proof (rule ccontr)
        assume "i \<noteq> 0"
        with i(2) have "\<exists>y. f x = Inr y" by (metis neq0_conv nth_Cons_0)
        with Inl show False by auto
      qed
      with i(1) show "f x = Inl e" by simp
    next
      assume "f x = Inl e"
      then show "\<exists>i < length (x # xs). f ((x # xs) ! i) = Inl e \<and>
                   (\<forall>j < i. \<exists>y. f ((x # xs) ! j) = Inr y)"
        by (intro exI [of _ 0]) simp
    qed
    with Inl show ?thesis by auto
  next
    case (Inr y)
    have "traverse_res f (x # xs) = Inl e \<longleftrightarrow> traverse_res f xs = Inl e"
      using Inr by (cases "traverse_res f xs") simp_all
    also have "\<dots> \<longleftrightarrow> (\<exists>i < length xs. f (xs ! i) = Inl e \<and> (\<forall>j < i. \<exists>y. f (xs ! j) = Inr y))"
      by (rule Cons.IH)
    also have "\<dots> \<longleftrightarrow> (\<exists>i < length (x # xs). f ((x # xs) ! i) = Inl e \<and>
                         (\<forall>j < i. \<exists>y. f ((x # xs) ! j) = Inr y))"
    proof
      assume "\<exists>i < length xs. f (xs ! i) = Inl e \<and> (\<forall>j < i. \<exists>y. f (xs ! j) = Inr y)"
      then obtain i where "i < length xs" "f (xs ! i) = Inl e" "\<forall>j < i. \<exists>y. f (xs ! j) = Inr y"
        by blast
      with Inr show "\<exists>i < length (x # xs). f ((x # xs) ! i) = Inl e \<and>
                       (\<forall>j < i. \<exists>y. f ((x # xs) ! j) = Inr y)"
        by (intro exI [of _ "Suc i"]) (auto simp: less_Suc_eq_0_disj)
    next
      assume "\<exists>i < length (x # xs). f ((x # xs) ! i) = Inl e \<and>
                (\<forall>j < i. \<exists>y. f ((x # xs) ! j) = Inr y)"
      then obtain i where i: "i < length (x # xs)" "f ((x # xs) ! i) = Inl e"
          "\<forall>j < i. \<exists>y. f ((x # xs) ! j) = Inr y"
        by blast
      with Inr obtain k where "i = Suc k" by (cases i) auto
      with i show "\<exists>i < length xs. f (xs ! i) = Inl e \<and> (\<forall>j < i. \<exists>y. f (xs ! j) = Inr y)"
        by (intro exI [of _ k]) auto
    qed
    finally show ?thesis .
  qed
qed

subsection \<open>Indexing\<close>

lemma py_getitem_Inr [res_simps]: "i < length xs \<Longrightarrow> py_getitem xs i = Inr (xs ! i)"
  by (simp add: py_getitem_def)

lemma py_getitem_Inl [res_simps]: "length xs \<le> i \<Longrightarrow> py_getitem xs i = Inl IndexError"
  by (simp add: py_getitem_def)

subsection \<open>Suffixed names\<close>

text \<open>
  The data-frame code derives column names by appending a suffix. Two names with
  different last characters differ; this is how the proofs tell the suffixes
  \<open>_adj\<close>, \<open>_final\<close> and the names \<open>row_total\<close>, \<open>Client Type\<close> apart.
\<close>

lemma append_suffix_last:
  "ys \<noteq> [] \<Longrightarrow> last (xs @ ys) = last ys"
  by simp

lemma last_differs_neq:
  "xs \<noteq> [] \<Longrightarrow> ys \<noteq> [] \<Longrightarrow> last xs \<noteq> last ys \<Longrightarrow> xs \<noteq> ys"
  by auto

lemma append_same_suffix_inj [simp]: "(xs @ s = ys @ s) \<longleftrightarrow> xs = ys"
  by simp

end
