(* ===== verification/PyStr.thy ===== *)
theory PyStr
  imports Prelude
begin

text \<open>
  The Python string operations the scraper in \<open>src/scrap.py\<close> applies, as HOL
  functions on \<open>string\<close> (a list of 8-bit characters; the code points the
  scraper meets are treated as Latin-1 characters). \<open>py_isspace\<close> is
  \<open>str.isspace\<close> on that range, \<open>py_strip\<close> is \<open>str.strip()\<close>,
  \<open>py_rstrip_chars\<close> is \<open>str.rstrip(chars)\<close>, \<open>py_split_char\<close> is
  \<open>str.split(sep)\<close> for a one-character separator, \<open>py_join\<close> is
  \<open>sep.join\<close>, \<open>py_in\<close> is the substring test \<open>needle in hay\<close>,
  \<open>py_startswith\<close> is \<open>str.startswith\<close> (also JavaScript's
  \<open>String.prototype.startsWith\<close>), \<open>py_replace\<close> is \<open>str.replace(old, new)\<close>,
  and \<open>sub_run c k r\<close> is \<open>re.sub(c{k,}, r, s)\<close> for a single character
  \<open>c\<close>: the leftmost, greedy and non-overlapping matches of the pattern are the
  maximal runs of \<open>c\<close> of length at least \<open>k\<close>, and each is replaced by \<open>r\<close>.
  The lemmas are the properties the scraper relies on: split and join are
  inverse, the pieces of a split hold no separator, \<open>replace\<close> of an absent
  needle is the identity, stripping is idempotent, and a run substitution leaves
  no run it was meant to remove.
\<close>

subsection \<open>Characters\<close>

definition py_isspace :: "char \<Rightarrow> bool" where
  "py_isspace c \<longleftrightarrow> of_char c \<in> set [9, 10, 11, 12, 13, 28, 29, 30, 31, 32, 133, 160 :: nat]"

abbreviation NL :: char where "NL \<equiv> CHR 0x0A"
abbreviation TAB :: char where "TAB \<equiv> CHR 0x09"
abbreviation SP :: char where "SP \<equiv> CHR 0x20"

subsection \<open>Stripping\<close>

definition py_lstrip :: "string \<Rightarrow> string" where
  "py_lstrip s = dropWhile py_isspace s"

definition py_rstrip :: "string \<Rightarrow> string" where
  "py_rstrip s = rev (dropWhile py_isspace (rev s))"

definition py_strip :: "string \<Rightarrow> string" where
  "py_strip s = py_rstrip (py_lstrip s)"

definition py_rstrip_chars :: "string \<Rightarrow> string \<Rightarrow> string" where
  "py_rstrip_chars s cs = rev (dropWhile (\<lambda>c. c \<in> set cs) (rev s))"

subsection \<open>Splitting and joining\<close>

fun py_split_char :: "string \<Rightarrow> char \<Rightarrow> string list" where
  "py_split_char [] d = [[]]"
| "py_split_char (x # xs) d =
     (let ws = py_split_char xs d in
      if x = d then [] # ws else (x # hd ws) # tl ws)"

fun py_join :: "string \<Rightarrow> string list \<Rightarrow> string" where
  "py_join sep [] = []"
| "py_join sep [w] = w"
| "py_join sep (w # v # ws) = w @ sep @ py_join sep (v # ws)"

subsection \<open>Searching\<close>

definition py_startswith :: "string \<Rightarrow> string \<Rightarrow> bool" where
  "py_startswith s p \<longleftrightarrow> take (length p) s = p"

fun py_in :: "string \<Rightarrow> string \<Rightarrow> bool" where
  "py_in n [] \<longleftrightarrow> n = []"
| "py_in n (x # xs) \<longleftrightarrow> py_startswith (x # xs) n \<or> py_in n xs"

subsection \<open>Replacing\<close>

fun py_replace_ne :: "string \<Rightarrow> string \<Rightarrow> string \<Rightarrow> string" where
  "py_replace_ne [] old new = []"
| "py_replace_ne (x # xs) old new =
     (if old \<noteq> [] \<and> py_startswith (x # xs) old
      then new @ py_replace_ne (drop (length old - 1) xs) old new
      else x # py_replace_ne xs old new)"

text \<open>
  With an empty \<open>old\<close>, Python inserts \<open>new\<close> before every character and at the
  end (\<open>'ab'.replace('', '-') == '-a-b-'\<close>).
\<close>

definition py_replace :: "string \<Rightarrow> string \<Rightarrow> string \<Rightarrow> string" where
  "py_replace s old new =
     (if old = [] then new @ concat (map (\<lambda>x. x # new) s) else py_replace_ne s old new)"

subsection \<open>Regular-expression substitution of runs\<close>

function sub_run :: "char \<Rightarrow> nat \<Rightarrow> string \<Rightarrow> string \<Rightarrow> string" where
  "sub_run c k r [] = []"
| "sub_run c k r (x # xs) =
     (if x = c then
        (let n = length (takeWhile (\<lambda>y. y = c) (x # xs)) in
         (if k \<le> n then r else replicate n c) @ sub_run c k r (dropWhile (\<lambda>y. y = c) xs))
      else x # sub_run c k r xs)"
  by pat_completeness auto
termination
  by (relation "measure (\<lambda>(c, k, r, s). length s)")
     (auto simp: le_imp_less_Suc length_dropWhile_le)

subsection \<open>Formatting\<close>

text \<open>
  \<open>py_format1 t k v\<close> is \<open>t.format(k=v)\<close> with one keyword argument: \<open>{{\<close>
  and \<open>}}\<close> stand for braces, a field \<open>{k}\<close> is replaced by \<open>v\<close>, another
  field name raises \<open>KeyError\<close>, an empty one \<open>IndexError\<close> (no positional
  argument), an unmatched brace \<open>ValueError\<close>. Conversions and format
  specifications inside a field are not modelled (the templates of the repository
  have none).
\<close>

function py_format1 :: "string \<Rightarrow> string \<Rightarrow> string \<Rightarrow> string result" where
  "py_format1 [] k v = Inr []"
| "py_format1 (x # xs) k v =
     (if x = CHR ''{'' then
        (if xs \<noteq> [] \<and> hd xs = CHR ''{'' then
           bind_res (py_format1 (tl xs) k v) (\<lambda>r. Inr (CHR ''{'' # r))
         else
           (let name = takeWhile (\<lambda>c. c \<noteq> CHR ''}'') xs;
                rest = dropWhile (\<lambda>c. c \<noteq> CHR ''}'') xs
            in if rest = [] then Inl (ValueError (''expected '' @ [CHR 0x27, CHR ''}'', CHR 0x27] @ '' before end of string''))
               else if name = [] then Inl IndexError
               else if name = k then bind_res (py_format1 (tl rest) k v) (\<lambda>r. Inr (v @ r))
               else Inl (KeyError name)))
      else if x = CHR ''}'' then
        (if xs \<noteq> [] \<and> hd xs = CHR ''}'' then
           bind_res (py_format1 (tl xs) k v) (\<lambda>r. Inr (CHR ''}'' # r))
         else Inl (ValueError (''Single '' @ [CHR 0x27, CHR ''}'', CHR 0x27] @ '' encountered in format string'')))
      else bind_res (py_format1 xs k v) (\<lambda>r. Inr (x # r)))"
  by pat_completeness auto
termination
  by (relation "measure (\<lambda>(s, k, v). length s)")
     (auto simp: le_imp_less_Suc length_dropWhile_le
           intro!: le_imp_less_Suc order_trans [OF diff_le_self length_dropWhile_le])

subsection \<open>Properties of splitting, searching and replacing\<close>

lemma py_split_char_nonempty [simp]: "py_split_char s d \<noteq> []"
  by (induction s) (simp_all add: Let_def)

lemma py_join_cons_hd:
  "ws \<noteq> [] \<Longrightarrow> py_join sep ((x # hd ws) # tl ws) = x # py_join sep ws"
  by (cases ws rule: remdups_adj.cases) simp_all

lemma py_join_split_char: "py_join [d] (py_split_char s d) = s"
proof (induction s)
  case Nil
  then show ?case by simp
next
  case (Cons x xs)
  have ne: "py_split_char xs d \<noteq> []" by simp
  show ?case
  proof (cases "x = d")
    case True
    with ne Cons.IH show ?thesis
      by (cases "py_split_char xs d") simp_all
  next
    case False
    with ne Cons.IH show ?thesis by (simp add: Let_def py_join_cons_hd)
  qed
qed

lemma py_split_char_sep_free: "w \<in> set (py_split_char s d) \<Longrightarrow> d \<notin> set w"
proof (induction s arbitrary: w)
  case Nil
  then show ?case by simp
next
  case (Cons x xs)
  have ne: "py_split_char xs d \<noteq> []" by simp
  then have "hd (py_split_char xs d) \<in> set (py_split_char xs d)" by simp
  moreover have "set (tl (py_split_char xs d)) \<subseteq> set (py_split_char xs d)"
    by (cases "py_split_char xs d") auto
  ultimately show ?case using Cons by (auto simp: Let_def split: if_splits)
qed

lemma py_startswith_iff_prefix: "py_startswith s p \<longleftrightarrow> prefix p s"
  unfolding py_startswith_def prefix_def
  by (metis append_eq_conv_conj append_take_drop_id)

lemma py_in_iff_sublist: "py_in n h \<longleftrightarrow> sublist n h"
  by (induction h) (simp_all add: py_startswith_iff_prefix sublist_Cons_right)

lemma py_in_set: "py_in n h \<Longrightarrow> set n \<subseteq> set h"
  by (auto simp: py_in_iff_sublist dest: set_mono_sublist)

lemma py_replace_ne_absent: "\<not> py_in old s \<Longrightarrow> py_replace_ne s old new = s"
proof (induction s old new rule: py_replace_ne.induct)
  case (1 old new)
  then show ?case by simp
next
  case (2 x xs old new)
  then show ?case by auto
qed

lemma py_replace_absent: "\<not> py_in old s \<Longrightarrow> py_replace s old new = s"
  by (cases "old = []") (simp_all add: py_replace_def py_replace_ne_absent py_in_iff_sublist)

lemma py_replace_char_absent:
  "c \<in> set old \<Longrightarrow> c \<notin> set s \<Longrightarrow> py_replace s old new = s"
  using py_in_set by (blast intro: py_replace_absent)

lemma dropWhile_rev_prefix:
  "prefix (rev (dropWhile P (rev t))) t"
proof -
  have "t = rev (dropWhile P (rev t)) @ rev (takeWhile P (rev t))"
    by (metis rev_append rev_rev_ident takeWhile_dropWhile_id)
  then show ?thesis by (metis prefixI)
qed

lemma py_lstrip_strip: "py_lstrip (py_strip s) = py_strip s"
proof -
  let ?t = "dropWhile py_isspace s"
  let ?u = "rev (dropWhile py_isspace (rev ?t))"
  have u: "py_strip s = ?u" by (simp add: py_strip_def py_rstrip_def py_lstrip_def)
  have "dropWhile py_isspace ?u = ?u"
  proof (cases "?u = []")
    case False
    from dropWhile_rev_prefix obtain zs where eq: "?t = ?u @ zs" by (metis prefixE)
    from eq False have t_ne: "?t \<noteq> []" by (metis Nil_is_append_conv)
    from eq False have "hd ?t = hd ?u" by (metis hd_append2)
    with t_ne have "\<not> py_isspace (hd ?u)" by (metis hd_dropWhile)
    then show ?thesis by (simp add: dropWhile_eq_self_iff)
  next
    case True
    then show ?thesis by (simp only: dropWhile.simps(1))
  qed
  then show ?thesis by (simp add: u py_lstrip_def)
qed

lemma py_strip_idem: "py_strip (py_strip s) = py_strip s"
proof -
  have "py_strip (py_strip s) = py_rstrip (py_strip s)"
    by (simp add: py_strip_def [of "py_strip s"] py_lstrip_strip)
  also have "\<dots> = py_strip s"
    by (simp add: py_rstrip_def py_strip_def)
  finally show ?thesis .
qed

lemma py_strip_ends:
  assumes ne: "py_strip s \<noteq> []"
  shows "\<not> py_isspace (hd (py_strip s)) \<and> \<not> py_isspace (last (py_strip s))"
proof
  from ne have "dropWhile py_isspace (py_strip s) \<noteq> []"
    using py_lstrip_strip by (simp add: py_lstrip_def)
  then show "\<not> py_isspace (hd (py_strip s))"
    using py_lstrip_strip by (metis hd_dropWhile py_lstrip_def)
next
  let ?v = "dropWhile py_isspace (rev (py_lstrip s))"
  have r: "py_strip s = rev ?v" by (simp add: py_strip_def py_rstrip_def)
  with ne have "?v \<noteq> []" by simp
  then have "\<not> py_isspace (hd ?v)" by (rule hd_dropWhile)
  with r \<open>?v \<noteq> []\<close> show "\<not> py_isspace (last (py_strip s))" by (simp add: last_rev)
qed

subsection \<open>Properties of run substitution\<close>

declare sub_run.simps [simp del]

lemma sub_run_Nil [simp]: "sub_run c k r [] = []"
  by (simp add: sub_run.simps)

lemma sub_run_other [simp]: "x \<noteq> c \<Longrightarrow> sub_run c k r (x # xs) = x # sub_run c k r xs"
  by (simp add: sub_run.simps)

lemma sub_run_run:
  "sub_run c k r (c # xs) =
     (let n = length (takeWhile (\<lambda>y. y = c) (c # xs)) in
      (if k \<le> n then r else replicate n c) @ sub_run c k r (dropWhile (\<lambda>y. y = c) xs))"
  by (simp add: sub_run.simps)

lemma sub_run_no_char: "c \<notin> set r \<Longrightarrow> c \<notin> set (sub_run c (Suc 0) r s)"
proof (induction c "Suc 0" r s rule: sub_run.induct)
  case (2 c r x xs)
  then show ?case
    by (cases "x = c") (auto simp: sub_run_run Let_def)
qed simp

lemma sub_run_hd:
  "s = [] \<or> hd s \<noteq> c \<Longrightarrow> sub_run c k r s = [] \<or> hd (sub_run c k r s) \<noteq> c"
  by (cases s) auto

lemma dropWhile_hd_neq: "dropWhile (\<lambda>y. y = c) xs = [] \<or> hd (dropWhile (\<lambda>y. y = c) xs) \<noteq> c"
  using hd_dropWhile [of "\<lambda>y. y = c" xs] by blast

lemma prefix_replicate_hd:
  "0 < k \<Longrightarrow> prefix (replicate k c) t \<Longrightarrow> t \<noteq> [] \<and> hd t = c"
  by (cases k) (auto simp: prefix_def)

lemma no_run_after_short_run:
  assumes "m < k" and "t = [] \<or> hd t \<noteq> c" and "\<not> sublist (replicate k c) t"
  shows "\<not> sublist (replicate k c) (replicate m c @ t)"
  using assms(1)
proof (induction m)
  case 0
  with assms(3) show ?case by simp
next
  case (Suc m)
  have eqc: "replicate (Suc m) c @ t = c # (replicate m c @ t)" by simp
  have np: "\<not> prefix (replicate k c) (c # (replicate m c @ t))"
  proof
    assume p: "prefix (replicate k c) (c # (replicate m c @ t))"
    have split: "replicate k c = replicate (Suc m) c @ replicate (k - Suc m) c"
      using Suc.prems by (metis le_add_diff_inverse less_imp_le replicate_add)
    from p have "prefix (replicate (Suc m) c @ replicate (k - Suc m) c) (replicate (Suc m) c @ t)"
      by (simp only: split eqc)
    then have pt: "prefix (replicate (k - Suc m) c) t" by (simp only: same_prefix_prefix)
    have pos: "0 < k - Suc m" using Suc.prems by simp
    from pos pt have "t \<noteq> [] \<and> hd t = c" by (rule prefix_replicate_hd)
    with assms(2) show False by blast
  qed
  have ns: "\<not> sublist (replicate k c) (replicate m c @ t)"
    using Suc.IH Suc.prems by simp
  from np ns show ?case unfolding eqc sublist_Cons_right by blast
qed

lemma no_run_after_other:
  assumes "x \<noteq> c" and "0 < k" and "\<not> sublist (replicate k c) t"
  shows "\<not> sublist (replicate k c) (x # t)"
proof -
  have "\<not> prefix (replicate k c) (x # t)"
    using prefix_replicate_hd [of k c "x # t"] assms(1,2) by auto
  with assms(3) show ?thesis by (simp only: sublist_Cons_right de_Morgan_disj) simp
qed

lemma sub_run_no_long_run:
  assumes "r = replicate m c" and "m < k"
  shows "\<not> sublist (replicate k c) (sub_run c k r s)"
  using assms
proof (induction c k r s rule: sub_run.induct)
  case (1 c k r)
  then show ?case by simp
next
  case (2 c k r x xs)
  show ?case
  proof (cases "x = c")
    case xc: True
    let ?rest = "dropWhile (\<lambda>y. y = c) xs"
    let ?n = "length (takeWhile (\<lambda>y. y = c) (c # xs))"
    have IH: "\<not> sublist (replicate k c) (sub_run c k r ?rest)"
      using "2.IH"(1) "2.prems" xc by (simp add: Let_def)
    have hd: "sub_run c k r ?rest = [] \<or> hd (sub_run c k r ?rest) \<noteq> c"
      by (rule sub_run_hd [OF dropWhile_hd_neq])
    obtain j where chunk: "(if k \<le> ?n then r else replicate ?n c) = replicate j c" "j < k"
    proof (cases "k \<le> ?n")
      case True
      then show thesis using that [of m] "2.prems" by simp
    next
      case False
      then have "(if k \<le> ?n then r else replicate ?n c) = replicate ?n c" by (rule if_not_P)
      with False show thesis by (metis that not_le)
    qed
    have "sub_run c k r (x # xs) = (if k \<le> ?n then r else replicate ?n c) @ sub_run c k r ?rest"
      unfolding xc by (simp only: sub_run_run Let_def)
    also have "\<dots> = replicate j c @ sub_run c k r ?rest" by (simp only: chunk(1))
    finally show ?thesis using no_run_after_short_run [OF chunk(2) hd IH] by simp
  next
    case False
    have "\<not> sublist (replicate k c) (sub_run c k r xs)"
      using "2.IH"(2) [OF False "2.prems"] .
    moreover have "0 < k" using "2.prems" by simp
    ultimately show ?thesis using False by (simp add: no_run_after_other)
  qed
qed

subsection \<open>Substitution keeps the runs of other characters\<close>

text \<open>
  Replacing the runs of \<open>c\<close> by a non-empty text free of \<open>d\<close> neither creates nor
  destroys a run of \<open>d\<close>; the scraper's three substitutions are chained on this.
  Stripping returns an infix, so it keeps the absence of a pattern.
\<close>
lemma sub_run_set: "set (sub_run c k r s) \<subseteq> set s \<union> set r"
proof (induction c k r s rule: sub_run.induct)
  case (2 c k r x xs)
  show ?case
  proof (cases "x = c")
    case True
    have "set (dropWhile (\<lambda>y. y = c) xs) \<subseteq> set xs" by (auto dest: set_dropWhileD)
    with True "2.IH"(1) show ?thesis by (auto simp: sub_run_run Let_def)
  next
    case False
    with "2.IH"(2) show ?thesis by auto
  qed
qed simp

lemma sublist_replicate_skip:
  "d \<notin> set u \<Longrightarrow> 0 < k \<Longrightarrow> sublist (replicate k d) (u @ t) \<longleftrightarrow> sublist (replicate k d) t"
proof (induction u)
  case (Cons y u)
  then have "\<not> prefix (replicate k d) (y # u @ t)"
    using prefix_replicate_hd [of k d "y # u @ t"] by auto
  with Cons show ?case by (simp add: sublist_Cons_right)
qed simp

lemma prefix_replicate_Cons:
  "prefix (replicate j d) (x # t) \<longleftrightarrow> j = 0 \<or> (x = d \<and> prefix (replicate (j - 1) d) t)"
  by (cases j) auto

lemma prefix_replicate_sub_run:
  assumes "d \<noteq> c" and "d \<notin> set r" and "r \<noteq> []"
  shows "prefix (replicate j d) (sub_run c m r s) \<longleftrightarrow> prefix (replicate j d) s"
  using assms
proof (induction c m r s arbitrary: j rule: sub_run.induct)
  case (2 c m r x xs)
  show ?case
  proof (cases "x = c")
    case True
    let ?n = "length (takeWhile (\<lambda>y. y = c) (c # xs))"
    let ?ch = "if m \<le> ?n then r else replicate ?n c"
    have ne: "?ch \<noteq> []" "hd ?ch \<noteq> d"
      using "2.prems" by (auto simp: hd_replicate)
    have "prefix (replicate j d) (?ch @ sub_run c m r (dropWhile (\<lambda>y. y = c) xs)) \<longleftrightarrow> j = 0"
      using ne by (cases j) (auto simp: prefix_def hd_append neq_Nil_conv)
    then show ?thesis using True "2.prems"(1)
      by (simp add: sub_run_run Let_def prefix_replicate_Cons del: takeWhile.simps)
  next
    case False
    then show ?thesis using "2.IH"(2) [OF False "2.prems"] by (simp add: prefix_replicate_Cons)
  qed
qed simp


lemma sublist_replicate_drop_run:
  assumes "d \<noteq> c" and "0 < k"
  shows "sublist (replicate k d) (c # xs) \<longleftrightarrow> sublist (replicate k d) (dropWhile (\<lambda>y. y = c) xs)"
proof -
  let ?tw = "takeWhile (\<lambda>y. y = c) (c # xs)"
  have split: "c # xs = ?tw @ dropWhile (\<lambda>y. y = c) xs"
    by simp
  have "d \<notin> set ?tw"
    using assms(1) by (auto dest: set_takeWhileD)
  then have "sublist (replicate k d) (?tw @ dropWhile (\<lambda>y. y = c) xs) \<longleftrightarrow>
      sublist (replicate k d) (dropWhile (\<lambda>y. y = c) xs)"
    using assms(2) by (rule sublist_replicate_skip)
  also have "?tw @ dropWhile (\<lambda>y. y = c) xs = c # xs"
    by (rule split [symmetric])
  finally show ?thesis by (simp only:)
qed

lemma sublist_replicate_sub_run:
  assumes "d \<noteq> c" and "d \<notin> set r" and "r \<noteq> []"
  shows "sublist (replicate k d) (sub_run c m r s) \<longleftrightarrow> sublist (replicate k d) s"
  using assms
proof (induction c m r s rule: sub_run.induct)
  case (2 c m r x xs)
  show ?case
  proof (cases "k = 0")
    case False
    show ?thesis
    proof (cases "x = c")
      case True
      let ?n = "length (takeWhile (\<lambda>y. y = c) (c # xs))"
      let ?ch = "if m \<le> ?n then r else replicate ?n c"
      let ?rest = "dropWhile (\<lambda>y. y = c) xs"
      have "d \<notin> set ?ch" using "2.prems" by auto
      then have "sublist (replicate k d) (?ch @ sub_run c m r ?rest) \<longleftrightarrow>
          sublist (replicate k d) (sub_run c m r ?rest)"
        using False by (simp add: sublist_replicate_skip)
      also have "\<dots> \<longleftrightarrow> sublist (replicate k d) ?rest"
        using "2.IH"(1) True "2.prems" by (simp add: Let_def)
      also have "\<dots> \<longleftrightarrow> sublist (replicate k d) (c # xs)"
        using sublist_replicate_drop_run [OF "2.prems"(1)] False by simp
      finally show ?thesis using True by (simp add: sub_run_run Let_def del: takeWhile.simps)
    next
      case xc: False
      have "prefix (replicate k d) (sub_run c m r (x # xs)) \<longleftrightarrow> prefix (replicate k d) (x # xs)"
        by (rule prefix_replicate_sub_run [OF "2.prems"])
      then show ?thesis using "2.IH"(2) [OF xc "2.prems"] xc
        by (simp add: sublist_Cons_right)
    qed
  qed simp
qed simp
lemma sublist_py_strip: "sublist (py_strip s) s"
proof -
  have "prefix (py_strip s) (py_lstrip s)"
    unfolding py_strip_def py_rstrip_def by (rule dropWhile_rev_prefix)
  moreover have "suffix (py_lstrip s) s"
    unfolding py_lstrip_def by (metis suffixI takeWhile_dropWhile_id)
  ultimately show ?thesis by (meson prefix_imp_sublist sublist_order.order.trans suffix_imp_sublist)
qed

lemma dropWhile_all: "\<forall>x \<in> set s. P x \<Longrightarrow> dropWhile P s = []"
  by (induction s) auto

lemma py_strip_all_space: "\<forall>ch \<in> set s. py_isspace ch \<Longrightarrow> py_strip s = []"
  by (simp add: py_strip_def py_rstrip_def py_lstrip_def dropWhile_all)

lemma sublist_no_run:
  "\<not> sublist w s \<Longrightarrow> sublist t s \<Longrightarrow> \<not> sublist w t"
  by (meson sublist_order.order.trans)

subsection \<open>Properties of formatting\<close>

lemma py_format1_plain:
  "CHR ''{'' \<notin> set s \<Longrightarrow> CHR ''}'' \<notin> set s \<Longrightarrow>
     py_format1 (s @ t) k v = bind_res (py_format1 t k v) (\<lambda>r. Inr (s @ r))"
  by (induction s) (auto simp: bind_res_def split: sum.splits)


lemma py_in_middle: "py_in x (a @ x @ b)"
  by (simp add: py_in_iff_sublist sublist_appendI)

end
