(* ===== verification/PyFloat.thy ===== *)
theory PyFloat
  imports PyStr Complex_Main
begin

text \<open>
  Python's \<open>float(s)\<close> on a string, which \<open>Series.astype(float)\<close> applies to every
  text cell of an object column (the cells \<open>pd.read_csv\<close> leaves as strings).  The
  accepted form is the decimal one: white space around an optional sign, digits with
  an optional fractional part (at least one digit in all), and an optional exponent
  \<open>e\<close>/\<open>E\<close> with an optional sign and at least one digit; as in Python, single
  underscores may separate digits (\<open>digitpart\<close>).  The value is exact: the binary
  rounding of the float is not modelled.  Python also accepts \<open>inf\<close>,
  \<open>nan\<close> and non-ASCII decimal digits; a float model over the reals has no value for
  the first two, and these spellings are rejected here (\<open>None\<close>, the
  \<open>ValueError\<close> of the call).
\<close>

definition is_ascii_digit :: "char \<Rightarrow> bool" where
  "is_ascii_digit c \<longleftrightarrow> 48 \<le> (of_char c :: nat) \<and> (of_char c :: nat) \<le> 57"

definition digit_val :: "char \<Rightarrow> nat" where
  "digit_val c = of_char c - 48"

definition nat_of_digits :: "string \<Rightarrow> nat" where
  "nat_of_digits ds = foldl (\<lambda>n d. 10 * n + digit_val d) 0 ds"

text \<open>\<open>digitpart\<close> of Python's float grammar: digits, where one underscore may stand
  between two digits; it returns the digits without underscores and the rest of the text.\<close>

fun digitpart :: "string \<Rightarrow> string \<times> string" where
  "digitpart [] = ([], [])"
| "digitpart (c # r) =
     (if \<not> is_ascii_digit c then ([], c # r)
      else (case r of
              u # d # r' \<Rightarrow>
                (if u = CHR ''_'' \<and> is_ascii_digit d
                 then (let (ds, rest) = digitpart (d # r') in (c # ds, rest))
                 else (let (ds, rest) = digitpart r in (c # ds, rest)))
            | _ \<Rightarrow> (let (ds, rest) = digitpart r in (c # ds, rest))))"

definition parse_sign :: "string \<Rightarrow> int \<times> string" where
  "parse_sign s =
     (case s of
        [] \<Rightarrow> (1, [])
      | c # r \<Rightarrow> (if c = CHR ''-'' then (-1, r) else if c = CHR ''+'' then (1, r) else (1, s)))"

definition parse_exponent :: "string \<Rightarrow> int option" where
  "parse_exponent s =
     (case s of
        [] \<Rightarrow> Some 0
      | c # r \<Rightarrow>
          (if c = CHR ''e'' \<or> c = CHR ''E'' then
             (let (sg, u) = parse_sign r; (ds, rest) = digitpart u in
              if ds \<noteq> [] \<and> rest = [] then Some (sg * int (nat_of_digits ds))
              else None)
           else None))"

definition scale10 :: "real \<Rightarrow> int \<Rightarrow> real" where
  "scale10 x e = (if 0 \<le> e then x * 10 ^ nat e else x / 10 ^ nat (- e))"

definition py_float :: "string \<Rightarrow> real option" where
  "py_float s =
     (let (sg, u) = parse_sign (py_strip s);
          (d1, r1) = digitpart u;
          (d2, r2) = (if r1 \<noteq> [] \<and> hd r1 = CHR ''.'' then digitpart (tl r1) else ([], r1))
      in if d1 @ d2 = [] then None
         else (case parse_exponent r2 of
                 None \<Rightarrow> None
               | Some e \<Rightarrow> Some (scale10 (of_int sg * of_nat (nat_of_digits (d1 @ d2)) / 10 ^ length d2) e)))"

end
