(* ===== verification/Frame.thy ===== *)
theory Frame
  imports PyFloat
begin

text \<open>
  The part of the pandas \<open>DataFrame\<close> that \<open>apply_instrument_deltas\<close>
  (\<open>src/marketTrend.py\<close>) uses. A frame has a number of rows and an ordered list
  of named columns, each a list of cells of that length; a cell is a number or a
  text that does not parse as one (what \<open>pd.read_csv\<close> leaves in a column that
  is not numeric). Missing values (NaN) are not modelled, and floating-point numbers
  are modelled as exact reals.
  \<^item> \<open>frame_getitem df c\<close> is \<open>df[c]\<close>: the column, or \<open>KeyError\<close>;
  \<^item> \<open>frame_setitem df c v\<close> is \<open>df[c] = v\<close>: an existing column is replaced in
    place, a new one is appended after the others (\<open>AList.update\<close>);
  \<^item> \<open>frame_select df cs\<close> is \<open>df[cs]\<close> for a list of names: the sub-frame with
    these columns in this order, or \<open>KeyError\<close> for the first absent name;
  \<^item> \<open>astype_float\<close> is \<open>Series.astype(float)\<close>: a text cell is converted
    by \<open>float()\<close> (\<open>py_float\<close>), and the first text that does not parse raises
    \<open>ValueError\<close>; \<open>series_nums\<close> reads the operands of a Series
    arithmetic operation, raising \<open>TypeError\<close> at a text cell;
  \<^item> \<open>frame_sum_rows\<close> is \<open>df.sum(axis=1)\<close>, \<open>series_replace\<close> is
    \<open>Series.replace(a, b)\<close>.
  The invariant \<open>frame_wf\<close> (distinct column names, every column of the frame's
  length) is kept by every operation; the lookup lemmas say what a column holds after
  a sequence of assignments.
\<close>

datatype cell = Num real | Str string

record frame =
  nrows :: nat
  cols :: "(string \<times> cell list) list"

definition frame_columns :: "frame \<Rightarrow> string list" where
  "frame_columns df = map fst (cols df)"

definition frame_getitem :: "frame \<Rightarrow> string \<Rightarrow> cell list result" where
  "frame_getitem df c = (case map_of (cols df) c of Some v \<Rightarrow> Inr v | None \<Rightarrow> Inl (KeyError c))"

definition frame_setitem :: "frame \<Rightarrow> string \<Rightarrow> cell list \<Rightarrow> frame" where
  "frame_setitem df c v = df\<lparr>cols := AList.update c v (cols df)\<rparr>"

definition frame_select :: "frame \<Rightarrow> string list \<Rightarrow> frame result" where
  "frame_select df cs =
     bind_res (traverse_res (\<lambda>c. bind_res (frame_getitem df c) (\<lambda>v. Inr (c, v))) cs)
       (\<lambda>cvs. Inr (df\<lparr>cols := cvs\<rparr>))"

fun cell_float :: "cell \<Rightarrow> real result" where
  "cell_float (Num x) = Inr x"
| "cell_float (Str s) = (case py_float s of Some x \<Rightarrow> Inr x | None \<Rightarrow> Inl (ValueError s))"

definition astype_float :: "cell list \<Rightarrow> real list result" where
  "astype_float v = traverse_res cell_float v"

fun cell_operand :: "cell \<Rightarrow> real result" where
  "cell_operand (Num x) = Inr x"
| "cell_operand (Str s) = Inl TypeError"

definition series_nums :: "cell list \<Rightarrow> real list result" where
  "series_nums v = traverse_res cell_operand v"

definition frame_sum_rows :: "frame \<Rightarrow> real list result" where
  "frame_sum_rows df =
     bind_res (traverse_res (\<lambda>(c, v). series_nums v) (cols df))
       (\<lambda>vs. Inr (map (\<lambda>r. sum_list (map (\<lambda>v. v ! r) vs)) [0..<nrows df]))"

definition series_replace :: "cell list \<Rightarrow> real \<Rightarrow> real \<Rightarrow> cell list" where
  "series_replace v a b = map (\<lambda>x. if x = Num a then Num b else x) v"

subsection \<open>Well-formed frames and numeric columns\<close>

definition frame_wf :: "frame \<Rightarrow> bool" where
  "frame_wf df \<longleftrightarrow> distinct (frame_columns df) \<and> list_all (\<lambda>(c, v). length v = nrows df) (cols df)"

fun is_num :: "cell \<Rightarrow> bool" where
  "is_num (Num x) = True"
| "is_num (Str s) = False"

fun cell_real :: "cell \<Rightarrow> real" where
  "cell_real (Num x) = x"
| "cell_real (Str s) = 0"

definition column_of :: "frame \<Rightarrow> string \<Rightarrow> cell list" where
  "column_of df c = (case map_of (cols df) c of Some v \<Rightarrow> v | None \<Rightarrow> [])"

definition numeric_column :: "frame \<Rightarrow> string \<Rightarrow> bool" where
  "numeric_column df c \<longleftrightarrow> c \<in> set (frame_columns df) \<and> list_all is_num (column_of df c)"

definition col_reals :: "frame \<Rightarrow> string \<Rightarrow> real list" where
  "col_reals df c = map cell_real (column_of df c)"

definition frame_row :: "frame \<Rightarrow> string list \<Rightarrow> nat \<Rightarrow> (string \<times> real) list" where
  "frame_row df cs r = map (\<lambda>c. (c, col_reals df c ! r)) cs"

subsection \<open>Column assignment, selection and arithmetic\<close>

lemma frame_getitem_Some [frame_simps]:
  "map_of (cols df) c = Some v \<Longrightarrow> frame_getitem df c = Inr v"
  by (simp add: frame_getitem_def)

lemma frame_getitem_None [frame_simps]:
  "map_of (cols df) c = None \<Longrightarrow> frame_getitem df c = Inl (KeyError c)"
  by (simp add: frame_getitem_def)

lemma map_of_setitem [frame_simps]:
  "map_of (cols (frame_setitem df c v)) = (map_of (cols df))(c \<mapsto> v)"
  by (simp add: frame_setitem_def update_conv')

lemma nrows_setitem [simp, frame_simps]: "nrows (frame_setitem df c v) = nrows df"
  by (simp add: frame_setitem_def)

lemma frame_columns_setitem [frame_simps]:
  "frame_columns (frame_setitem df c v) =
     (if c \<in> set (frame_columns df) then frame_columns df else frame_columns df @ [c])"
  by (simp add: frame_setitem_def frame_columns_def update_keys)

lemma frame_getitem_setitem:
  "frame_getitem (frame_setitem df c v) d = (if d = c then Inr v else frame_getitem df d)"
  by (simp add: frame_getitem_def map_of_setitem)

lemma set_update_values:
  "(k, w) \<in> set (AList.update c v al) \<Longrightarrow> (k, w) \<in> set al \<or> (k = c \<and> w = v)"
  by (induction al) (auto split: if_splits)

lemma frame_wf_setitem:
  assumes "frame_wf df" and "length v = nrows df"
  shows "frame_wf (frame_setitem df c v)"
proof -
  have "distinct (frame_columns (frame_setitem df c v))"
    using assms(1) by (simp add: frame_columns_setitem frame_wf_def)
  moreover have "list_all (\<lambda>(k, w). length w = nrows df) (AList.update c v (cols df))"
    using assms by (fastforce simp: frame_wf_def list_all_iff dest: set_update_values)
  ultimately show ?thesis by (simp add: frame_wf_def frame_setitem_def)
qed

lemma frame_select_Inr:
  assumes "set cs \<subseteq> set (frame_columns df)"
  shows "frame_select df cs = Inr (df\<lparr>cols := map (\<lambda>c. (c, column_of df c)) cs\<rparr>)"
proof -
  have "traverse_res (\<lambda>c. bind_res (frame_getitem df c) (\<lambda>v. Inr (c, v))) cs =
        Inr (map (\<lambda>c. (c, column_of df c)) cs)"
    using assms
  proof (induction cs)
    case (Cons c cs)
    then obtain v where "map_of (cols df) c = Some v"
      by (auto simp: frame_columns_def dest: weak_map_of_SomeI)
    with Cons show ?case by (simp add: frame_getitem_def column_of_def)
  qed simp
  then show ?thesis by (simp add: frame_select_def)
qed

lemma frame_select_missing:
  assumes "c \<in> set cs" and "c \<notin> set (frame_columns df)"
  shows "\<exists>d. frame_select df cs = Inl (KeyError d)"
proof -
  have "\<exists>d. traverse_res (\<lambda>c. bind_res (frame_getitem df c) (\<lambda>v. Inr (c, v))) cs = Inl (KeyError d)"
    using assms
  proof (induction cs)
    case (Cons x cs)
    show ?case
    proof (cases "map_of (cols df) x")
      case None
      then show ?thesis by (simp add: frame_getitem_def)
    next
      case (Some v)
      from Cons.prems(2) have "map_of (cols df) c = None"
        by (simp add: frame_columns_def map_of_eq_None_iff)
      with Some have "x \<noteq> c" by auto
      with Cons obtain d where "traverse_res (\<lambda>c. bind_res (frame_getitem df c) (\<lambda>v. Inr (c, v))) cs = Inl (KeyError d)"
        by auto
      with Some show ?thesis by (simp add: frame_getitem_def)
    qed
  qed simp
  then show ?thesis by (auto simp: frame_select_def)
qed

lemma astype_float_Num [simp]: "astype_float (map Num xs) = Inr xs"
  by (induction xs) (simp_all add: astype_float_def)

lemma series_nums_Num [simp]: "series_nums (map Num xs) = Inr xs"
  by (induction xs) (simp_all add: series_nums_def)

lemma series_replace_Num:
  "series_replace (map Num xs) a b = map (\<lambda>x. Num (if x = a then b else x)) xs"
  by (simp add: series_replace_def)

lemma frame_sum_rows_Num:
  "frame_sum_rows (df\<lparr>cols := map (\<lambda>c. (f c, map Num (g c))) cs\<rparr>) =
     Inr (map (\<lambda>r. sum_list (map (\<lambda>c. g c ! r) cs)) [0..<nrows df])"
proof -
  have "traverse_res (\<lambda>(c, v). series_nums v) (map (\<lambda>c. (f c, map Num (g c))) cs) = Inr (map g cs)"
    by (induction cs) simp_all
  then show ?thesis by (simp add: frame_sum_rows_def comp_def)
qed

lemma numeric_column_lookup:
  "numeric_column df c \<Longrightarrow> map_of (cols df) c = Some (map Num (col_reals df c))"
proof -
  assume n: "numeric_column df c"
  then obtain v where v: "map_of (cols df) c = Some v"
    by (auto simp: numeric_column_def frame_columns_def dest: weak_map_of_SomeI)
  with n have "list_all is_num v" by (simp add: numeric_column_def column_of_def)
  then have "v = map Num (map cell_real v)"
    by (induction v) (auto elim: is_num.elims)
  with v show ?thesis by (simp add: col_reals_def column_of_def)
qed

lemma frame_wf_column_length:
  "frame_wf df \<Longrightarrow> map_of (cols df) c = Some v \<Longrightarrow> length v = nrows df"
  by (auto simp: frame_wf_def list_all_iff dest: map_of_SomeD)

subsection \<open>Sequences of column assignments\<close>

lemma fold_setitem_nrows [simp]:
  "nrows (fold (\<lambda>c d. frame_setitem d (f c) (g c)) cs df) = nrows df"
  by (induction cs arbitrary: df) simp_all

lemma fold_setitem_other:
  "k \<notin> f ` set cs \<Longrightarrow>
     map_of (cols (fold (\<lambda>c d. frame_setitem d (f c) (g c)) cs df)) k = map_of (cols df) k"
  by (induction cs arbitrary: df) (simp_all add: map_of_setitem)

lemma fold_setitem_same:
  "c \<in> set cs \<Longrightarrow> inj_on f (set cs) \<Longrightarrow>
     map_of (cols (fold (\<lambda>c d. frame_setitem d (f c) (g c)) cs df)) (f c) = Some (g c)"
proof (induction cs arbitrary: df)
  case (Cons x cs)
  show ?case
  proof (cases "c \<in> set cs")
    case True
    with Cons show ?thesis by simp
  next
    case False
    with Cons.prems have "c = x" and "f c \<notin> f ` set cs"
      by (auto simp: inj_on_def)
    then show ?thesis by (simp add: fold_setitem_other map_of_setitem)
  qed
qed simp

lemma fold_setitem_columns:
  "set (frame_columns (fold (\<lambda>c d. frame_setitem d (f c) (g c)) cs df)) =
     set (frame_columns df) \<union> f ` set cs"
  by (induction cs arbitrary: df) (auto simp: frame_columns_setitem)

lemma fold_setitem_wf:
  "frame_wf df \<Longrightarrow> (\<forall>c \<in> set cs. length (g c) = nrows df) \<Longrightarrow>
     frame_wf (fold (\<lambda>c d. frame_setitem d (f c) (g c)) cs df)"
  by (induction cs arbitrary: df) (simp_all add: frame_wf_setitem)

lemma column_of_Some: "map_of (cols df) c = Some v \<Longrightarrow> column_of df c = v"
  by (simp add: column_of_def)

end
