(* ===== verification/JsonDump.thy ===== *)
theory JsonDump
  imports PyStr
begin

text \<open>
  The part of Python's \<open>json\<close> module the scraper uses: \<open>json.dump(result, f,
  ensure_ascii=False, indent=2)\<close> of a dictionary whose values are strings, \<open>None\<close>
  and a list of strings.  \<open>json_dumps\<close> is the text the pure-Python encoder
  (\<open>json.encoder._make_iterencode\<close>, used whenever \<open>indent\<close> is set) writes:
  strings in double quotes with \<open>\\\<close>, \<open>"\<close> and the control characters escaped
  (\<open>\n\<close>, \<open>\t\<close> and the others by name, the rest as \<open>\u00XX\<close>), every other
  character written as is; a non-empty list or dictionary opens a new line indented by
  two spaces per level for each element, separated by \<open>,\<close>, keys followed by
  \<open>: \<close>; empty ones are \<open>[]\<close> and \<open>{}\<close>.  \<open>json_loads\<close> reads such a text back
  (\<open>json.loads\<close> on values built from \<open>null\<close>, strings, arrays and objects): a
  lexer \<open>json_lex\<close> to tokens and a parser \<open>parse_value\<close> whose fuel is the number
  of tokens, since every call consumes at least one.  Escapes \<open>\uXXXX\<close> above
  0xFF lie outside the 8-bit character model and are rejected.
\<close>

datatype json = JNull | JStr string | JArr "json list" | JObj "(string \<times> json) list"

subsection \<open>Encoding\<close>

definition hex_char :: "nat \<Rightarrow> char" where
  "hex_char d = ''0123456789abcdef'' ! d"

definition json_escape_char :: "char \<Rightarrow> string" where
  "json_escape_char c =
     (if c = CHR 0x5C then [CHR 0x5C, CHR 0x5C]
      else if c = CHR 0x22 then [CHR 0x5C, CHR 0x22]
      else if c = CHR 0x08 then [CHR 0x5C, CHR ''b'']
      else if c = CHR 0x0C then [CHR 0x5C, CHR ''f'']
      else if c = CHR 0x0A then [CHR 0x5C, CHR ''n'']
      else if c = CHR 0x0D then [CHR 0x5C, CHR ''r'']
      else if c = CHR 0x09 then [CHR 0x5C, CHR ''t'']
      else if of_char c < (32::nat) then
        [CHR 0x5C, CHR ''u'', CHR ''0'', CHR ''0'', hex_char (of_char c div 16), hex_char (of_char c mod 16)]
      else [c])"

definition json_str :: "string \<Rightarrow> string" where
  "json_str s = CHR 0x22 # concat (map json_escape_char s) @ [CHR 0x22]"

definition json_newline :: "nat \<Rightarrow> string" where
  "json_newline lvl = NL # concat (replicate lvl [SP, SP])"

fun json_render :: "nat \<Rightarrow> json \<Rightarrow> string"
  and json_render_items :: "nat \<Rightarrow> json list \<Rightarrow> string"
  and json_render_members :: "nat \<Rightarrow> (string \<times> json) list \<Rightarrow> string" where
  "json_render lvl JNull = ''null''"
| "json_render lvl (JStr s) = json_str s"
| "json_render lvl (JArr vs) =
     (if vs = [] then ''[]''
      else ''['' @ json_newline (Suc lvl) @ json_render_items (Suc lvl) vs @ json_newline lvl @ '']'')"
| "json_render lvl (JObj kvs) =
     (if kvs = [] then ''{}''
      else ''{'' @ json_newline (Suc lvl) @ json_render_members (Suc lvl) kvs @ json_newline lvl @ ''}'')"
| "json_render_items lvl [] = []"
| "json_render_items lvl (v # vs) =
     json_render lvl v @ (if vs = [] then [] else '','' @ json_newline lvl @ json_render_items lvl vs)"
| "json_render_members lvl [] = []"
| "json_render_members lvl ((k, v) # kvs) =
     json_str k @ '': '' @ json_render lvl v @
     (if kvs = [] then [] else '','' @ json_newline lvl @ json_render_members lvl kvs)"

definition json_dumps :: "json \<Rightarrow> string" where
  "json_dumps v = json_render 0 v"

subsection \<open>Decoding\<close>

datatype token = TLBrace | TRBrace | TLBrack | TRBrack | TColon | TComma | TNull | TString string

definition json_ws :: "char \<Rightarrow> bool" where
  "json_ws c \<longleftrightarrow> c = SP \<or> c = TAB \<or> c = NL \<or> c = CHR 0x0D"

definition hex_val :: "char \<Rightarrow> nat option" where
  "hex_val c =
     (let n = (of_char c :: nat) in
      if 48 \<le> n \<and> n \<le> 57 then Some (n - 48)
      else if 97 \<le> n \<and> n \<le> 102 then Some (n - 87)
      else if 65 \<le> n \<and> n \<le> 70 then Some (n - 55)
      else None)"

definition hex4 :: "char \<Rightarrow> char \<Rightarrow> char \<Rightarrow> char \<Rightarrow> char option" where
  "hex4 a b c d =
     (case (hex_val a, hex_val b, hex_val c, hex_val d) of
        (Some x, Some y, Some z, Some w) \<Rightarrow>
          (let n = 4096 * x + 256 * y + 16 * z + w in if n < 256 then Some (char_of n) else None)
      | _ \<Rightarrow> None)"

definition simple_escape :: "char \<Rightarrow> char option" where
  "simple_escape e =
     (if e = CHR 0x22 then Some (CHR 0x22) else if e = CHR 0x5C then Some (CHR 0x5C)
      else if e = CHR ''/'' then Some (CHR ''/'') else if e = CHR ''b'' then Some (CHR 0x08)
      else if e = CHR ''f'' then Some (CHR 0x0C) else if e = CHR ''n'' then Some (CHR 0x0A)
      else if e = CHR ''r'' then Some (CHR 0x0D) else if e = CHR ''t'' then Some (CHR 0x09)
      else None)"

definition cons_tok :: "token \<Rightarrow> token list option \<Rightarrow> token list option" where
  "cons_tok t r = map_option (Cons t) r"

text \<open>\<open>json_lex\<close> reads tokens; \<open>json_lex_str acc\<close> reads the rest of a string literal,
  \<open>acc\<close> holding the characters read so far in reverse.\<close>

fun json_lex :: "string \<Rightarrow> token list option"
  and json_lex_str :: "string \<Rightarrow> string \<Rightarrow> token list option" where
  "json_lex [] = Some []"
| "json_lex (c # cs) =
     (if json_ws c then json_lex cs
      else if c = CHR ''{'' then cons_tok TLBrace (json_lex cs)
      else if c = CHR ''}'' then cons_tok TRBrace (json_lex cs)
      else if c = CHR ''['' then cons_tok TLBrack (json_lex cs)
      else if c = CHR '']'' then cons_tok TRBrack (json_lex cs)
      else if c = CHR '':'' then cons_tok TColon (json_lex cs)
      else if c = CHR '','' then cons_tok TComma (json_lex cs)
      else if c = CHR 0x22 then json_lex_str [] cs
      else if c = CHR ''n'' then
        (case cs of
           x # y # z # rest \<Rightarrow> (if [x, y, z] = ''ull'' then cons_tok TNull (json_lex rest) else None)
         | _ \<Rightarrow> None)
      else None)"
| "json_lex_str acc [] = None"
| "json_lex_str acc (c # cs) =
     (if c = CHR 0x22 then cons_tok (TString (rev acc)) (json_lex cs)
      else if c = CHR 0x5C then
        (case cs of
           [] \<Rightarrow> None
         | e # rest \<Rightarrow>
             (if e = CHR ''u'' then
                (case rest of
                   a # b # x # d # rest' \<Rightarrow>
                     (case hex4 a b x d of Some ch \<Rightarrow> json_lex_str (ch # acc) rest' | None \<Rightarrow> None)
                 | _ \<Rightarrow> None)
              else (case simple_escape e of Some ch \<Rightarrow> json_lex_str (ch # acc) rest | None \<Rightarrow> None)))
      else if of_char c < (32::nat) then None
      else json_lex_str (c # acc) cs)"

fun parse_value :: "nat \<Rightarrow> token list \<Rightarrow> (json \<times> token list) option"
  and parse_items :: "nat \<Rightarrow> token list \<Rightarrow> (json list \<times> token list) option"
  and parse_members :: "nat \<Rightarrow> token list \<Rightarrow> ((string \<times> json) list \<times> token list) option" where
  "parse_value 0 ts = None"
| "parse_value (Suc n) (TNull # ts) = Some (JNull, ts)"
| "parse_value (Suc n) (TString s # ts) = Some (JStr s, ts)"
| "parse_value (Suc n) (TLBrack # TRBrack # ts) = Some (JArr [], ts)"
| "parse_value (Suc n) (TLBrack # ts) = map_option (\<lambda>(vs, r). (JArr vs, r)) (parse_items n ts)"
| "parse_value (Suc n) (TLBrace # TRBrace # ts) = Some (JObj [], ts)"
| "parse_value (Suc n) (TLBrace # ts) = map_option (\<lambda>(kvs, r). (JObj kvs, r)) (parse_members n ts)"
| "parse_value (Suc n) ts = None"
| "parse_items 0 ts = None"
| "parse_items (Suc n) ts =
     (case parse_value n ts of
        Some (v, TComma # r) \<Rightarrow> map_option (\<lambda>(vs, r'). (v # vs, r')) (parse_items n r)
      | Some (v, TRBrack # r) \<Rightarrow> Some ([v], r)
      | _ \<Rightarrow> None)"
| "parse_members 0 ts = None"
| "parse_members (Suc n) (TString k # TColon # ts) =
     (case parse_value n ts of
        Some (v, TComma # r) \<Rightarrow> map_option (\<lambda>(kvs, r'). ((k, v) # kvs, r')) (parse_members n r)
      | Some (v, TRBrace # r) \<Rightarrow> Some ([(k, v)], r)
      | _ \<Rightarrow> None)"
| "parse_members (Suc n) ts = None"

definition json_loads :: "string \<Rightarrow> json option" where
  "json_loads s =
     (case json_lex s of
        None \<Rightarrow> None
      | Some ts \<Rightarrow> (case parse_value (length ts) ts of Some (v, []) \<Rightarrow> Some v | _ \<Rightarrow> None))"

text \<open>The tokens a value is written as, the reference for both directions.\<close>

fun json_tokens :: "json \<Rightarrow> token list"
  and items_tokens :: "json list \<Rightarrow> token list"
  and members_tokens :: "(string \<times> json) list \<Rightarrow> token list" where
  "json_tokens JNull = [TNull]"
| "json_tokens (JStr s) = [TString s]"
| "json_tokens (JArr vs) = (if vs = [] then [TLBrack, TRBrack] else TLBrack # items_tokens vs @ [TRBrack])"
| "json_tokens (JObj kvs) = (if kvs = [] then [TLBrace, TRBrace] else TLBrace # members_tokens kvs @ [TRBrace])"
| "items_tokens [] = []"
| "items_tokens (v # vs) = json_tokens v @ (if vs = [] then [] else TComma # items_tokens vs)"
| "members_tokens [] = []"
| "members_tokens ((k, v) # kvs) =
     TString k # TColon # json_tokens v @ (if kvs = [] then [] else TComma # members_tokens kvs)"

subsection \<open>Lemmas\<close>

lemma json_lex_newline: "json_lex (json_newline l @ rest) = json_lex rest"
proof -
  have "json_lex (concat (replicate l [SP, SP]) @ rest) = json_lex rest"
    by (induction l) (simp_all add: json_ws_def)
  then show ?thesis by (simp add: json_newline_def json_ws_def)
qed

lemma hex_char_val: "d < 16 \<Longrightarrow> hex_val (hex_char d) = Some d"
proof -
  have "\<forall>d \<in> set [0..<16]. hex_val (hex_char d) = Some d"
    by (simp add: hex_val_def hex_char_def upt_rec)
  then show "d < 16 \<Longrightarrow> ?thesis" by simp
qed

lemma hex4_control:
  assumes "of_char c < (32::nat)"
  shows "hex4 (CHR ''0'') (CHR ''0'') (hex_char (of_char c div 16)) (hex_char (of_char c mod 16)) = Some c"
proof -
  let ?n = "of_char c :: nat"
  have "?n div 16 < 16" "?n mod 16 < 16" using assms by simp_all
  then have "hex_val (hex_char (?n div 16)) = Some (?n div 16)" "hex_val (hex_char (?n mod 16)) = Some (?n mod 16)"
    by (simp_all add: hex_char_val)
  moreover have "hex_val (CHR ''0'') = Some 0" by (simp add: hex_val_def)
  moreover have "16 * (?n div 16) + ?n mod 16 = ?n" by simp
  ultimately show ?thesis using assms by (simp add: hex4_def)
qed

lemma json_lex_str_escape_char:
  "json_lex_str acc (json_escape_char c @ t) = json_lex_str (c # acc) t"
proof -
  consider "c = CHR 0x5C" | "c = CHR 0x22" | "c = CHR 0x08" | "c = CHR 0x0C" | "c = CHR 0x0A"
    | "c = CHR 0x0D" | "c = CHR 0x09"
    | "c \<notin> {CHR 0x5C, CHR 0x22, CHR 0x08, CHR 0x0C, CHR 0x0A, CHR 0x0D, CHR 0x09}" "of_char c < (32::nat)"
    | "c \<notin> {CHR 0x5C, CHR 0x22, CHR 0x08, CHR 0x0C, CHR 0x0A, CHR 0x0D, CHR 0x09}" "\<not> of_char c < (32::nat)"
    by blast
  then show ?thesis
  proof cases
    case 8
    then show ?thesis by (simp add: json_escape_char_def hex4_control)
  next
    case 9
    then show ?thesis by (simp add: json_escape_char_def)
  qed (simp_all add: json_escape_char_def simple_escape_def)
qed

lemma json_lex_str_escape:
  "json_lex_str acc (concat (map json_escape_char s) @ CHR 0x22 # rest) =
     cons_tok (TString (rev acc @ s)) (json_lex rest)"
  by (induction s arbitrary: acc) (simp_all add: json_lex_str_escape_char)

lemma json_lex_str_json:
  "json_lex (json_str s @ rest) = cons_tok (TString s) (json_lex rest)"
  using json_lex_str_escape [of "[]" s rest] by (simp add: json_str_def json_ws_def)


lemma map_option_append_Nil [simp]: "map_option ((@) []) x = x"
  by (cases x) simp_all

lemma json_lex_render:
  shows "json_lex (json_render l v @ rest) = map_option ((@) (json_tokens v)) (json_lex rest)"
    and "json_lex (json_render_items l vs @ rest) = map_option ((@) (items_tokens vs)) (json_lex rest)"
    and "json_lex (json_render_members l kvs @ rest) = map_option ((@) (members_tokens kvs)) (json_lex rest)"
proof (induction l v and l vs and l kvs arbitrary: rest and rest and rest
       rule: json_render_json_render_items_json_render_members.induct)
  case (1 lvl)
  then show ?case by (simp add: cons_tok_def json_ws_def option.map_comp comp_def)
next
  case (2 lvl s)
  then show ?case by (simp add: json_lex_str_json cons_tok_def)
next
  case (3 lvl vs)
  then show ?case
    by (simp add: cons_tok_def json_ws_def json_lex_newline option.map_comp comp_def)
next
  case (4 lvl kvs)
  then show ?case
    by (simp add: cons_tok_def json_ws_def json_lex_newline option.map_comp comp_def)
next
  case (6 lvl v vs)
  then show ?case
    by (simp add: cons_tok_def json_ws_def json_lex_newline option.map_comp comp_def)
next
  case (8 lvl k v kvs)
  then show ?case
    by (simp add: json_lex_str_json cons_tok_def json_ws_def json_lex_newline option.map_comp comp_def)
qed simp_all


lemma json_tokens_first:
  "\<exists>t ts'. json_tokens v = t # ts' \<and> t \<noteq> TRBrack \<and> t \<noteq> TRBrace"
  by (cases v) auto

lemma items_tokens_first:
  "vs \<noteq> [] \<Longrightarrow> \<exists>t ts'. items_tokens vs = t # ts' \<and> t \<noteq> TRBrack \<and> t \<noteq> TRBrace"
  using json_tokens_first by (cases vs) fastforce+

lemma members_tokens_first:
  "kvs \<noteq> [] \<Longrightarrow> \<exists>k ts'. members_tokens kvs = TString k # ts'"
  by (cases kvs) auto

lemma parse_value_open_arr:
  "t \<noteq> TRBrack \<Longrightarrow> parse_value (Suc n) (TLBrack # t # ts) = map_option (\<lambda>(vs, r). (JArr vs, r)) (parse_items n (t # ts))"
  by (cases t) simp_all

lemma parse_value_open_obj:
  "t \<noteq> TRBrace \<Longrightarrow> parse_value (Suc n) (TLBrace # t # ts) = map_option (\<lambda>(kvs, r). (JObj kvs, r)) (parse_members n (t # ts))"
  by (cases t) simp_all

lemma json_tokens_length: "1 \<le> length (json_tokens v)"
  using json_tokens_first [of v] by auto

lemma parse_json_tokens:
  shows "length (json_tokens v) \<le> n \<Longrightarrow> parse_value n (json_tokens v @ ts) = Some (v, ts)"
    and "vs \<noteq> [] \<Longrightarrow> length (items_tokens vs) < n \<Longrightarrow>
           parse_items n (items_tokens vs @ TRBrack # ts) = Some (vs, ts)"
    and "kvs \<noteq> [] \<Longrightarrow> length (members_tokens kvs) < n \<Longrightarrow>
           parse_members n (members_tokens kvs @ TRBrace # ts) = Some (kvs, ts)"
proof (induction v and vs and kvs arbitrary: n ts and n ts and n ts
       rule: json_tokens_items_tokens_members_tokens.induct)
  case 1
  then obtain m where "n = Suc m" by (cases n) auto
  then show ?case by simp
next
  case (2 s)
  then obtain m where "n = Suc m" by (cases n) auto
  then show ?case by simp
next
  case (3 vs)
  then obtain m where n: "n = Suc m" by (cases n) (auto split: if_splits)
  show ?case
  proof (cases "vs = []")
    case False
    obtain t ts' where t: "items_tokens vs = t # ts'" "t \<noteq> TRBrack" using items_tokens_first [OF False] by blast
    have "parse_items m (items_tokens vs @ TRBrack # ts) = Some (vs, ts)"
      using "3.IH" [OF False False] "3.prems" False n by simp
    then show ?thesis using False n t by (simp add: parse_value_open_arr)
  qed (simp add: n)
next
  case (4 kvs)
  then obtain m where n: "n = Suc m" by (cases n) (auto split: if_splits)
  show ?case
  proof (cases "kvs = []")
    case False
    obtain k ts' where t: "members_tokens kvs = TString k # ts'" using members_tokens_first [OF False] by blast
    have "parse_members m (members_tokens kvs @ TRBrace # ts) = Some (kvs, ts)"
      using "4.IH" [OF False False] "4.prems" False n by simp
    then show ?thesis using False n t by (simp add: parse_value_open_obj)
  qed (simp add: n)
next
  case (6 v vs)
  then obtain m where n: "n = Suc m" by (cases n) auto
  have pv: "parse_value m (json_tokens v @ r) = Some (v, r)" for r
    using "6.IH"(1) "6.prems" n by simp
  show ?case
  proof (cases "vs = []")
    case True
    then show ?thesis using pv [of "TRBrack # ts"] n by simp
  next
    case False
    have "parse_items m (items_tokens vs @ TRBrack # ts) = Some (vs, ts)"
      using "6.IH"(2) [OF False False] "6.prems" False n json_tokens_length [of v] by simp
    then show ?thesis using pv [of "TComma # items_tokens vs @ TRBrack # ts"] n False by simp
  qed
next
  case (8 k v kvs)
  then obtain m where n: "n = Suc m" by (cases n) auto
  have pv: "parse_value m (json_tokens v @ r) = Some (v, r)" for r
    using "8.IH"(1) "8.prems" n by simp
  show ?case
  proof (cases "kvs = []")
    case True
    then show ?thesis using pv [of "TRBrace # ts"] n by simp
  next
    case False
    have "parse_members m (members_tokens kvs @ TRBrace # ts) = Some (kvs, ts)"
      using "8.IH"(2) [OF False False] "8.prems" False n json_tokens_length [of v] by simp
    then show ?thesis using pv [of "TComma # members_tokens kvs @ TRBrace # ts"] n False by simp
  qed
qed simp_all

section \<open>Round trip\<close>

text \<open>Reading back what \<open>json.dump\<close> writes gives the value written: for every
  value built from \<open>null\<close>, strings, lists and objects, \<open>json_loads\<close> of the
  indented text is the value.  In particular every string survives its escaping.\<close>

lemma json_loads_dumps: "json_loads (json_dumps v) = Some v"
proof -
  have "json_lex (json_dumps v) = Some (json_tokens v)"
    using json_lex_render(1) [of 0 v "[]"] by (simp add: json_dumps_def)
  then show ?thesis
    using parse_json_tokens(1) [of v "length (json_tokens v)" "[]"] by (simp add: json_loads_def)
qed

end
