(* ===== verification/MarketTrend.thy ===== *)
theory MarketTrend
  imports Frame JsonDump
begin

text \<open>
  The parts of the market-trend script \<open>src/marketTrend.py\<close> that the root theory
  composes: the documents and the interface record \<open>services\<close> of the external
  services (structured language model, news search, summariser, vector store), the
  pydantic model \<open>GeneratedQuestions\<close> and its validation, the question prompt of
  lines 10--55, and the loop that collects the first two articles of every search
  (lines 86--93).  The lemmas give the prompt's formatting, the collected news in closed
  form and the errors validation can raise.
\<close>

record doc =
  page_content :: string
  metadata :: "(string \<times> real) list"

text \<open>
  \<open>GeneratedQuestions\<close> (lines 7--8) and its pydantic validation: the structured
  model returns the arguments of its tool call as a JSON value, and
  \<open>with_structured_output\<close> validates them into the model, raising
  \<open>ValidationError\<close> when the input is not an object (location
  \<open>GeneratedQuestions\<close>) or when its field \<open>questions\<close> is missing, not a list, or
  holds an item that is not a string (location \<open>questions\<close>).  Extra keys are
  ignored, and of repeated keys the last counts, as \<open>json.loads\<close> keeps it.  When
  the model makes no tool call, \<open>invoke\<close> returns \<open>None\<close> (\<open>None\<close> in
  \<open>gen_questions\<close>), and reading \<open>.questions\<close> at line 62 raises
  \<open>AttributeError\<close>: \<open>structured_questions\<close> is lines 61--62.
\<close>

record generated_questions =
  questions :: "string list"

fun is_jstr :: "json \<Rightarrow> bool" where
  "is_jstr (JStr s) = True"
| "is_jstr v = False"

fun jstr_val :: "json \<Rightarrow> string" where
  "jstr_val (JStr s) = s"
| "jstr_val v = []"

definition validate_questions :: "json \<Rightarrow> generated_questions result" where
  "validate_questions v =
     (case v of
        JObj kvs \<Rightarrow>
          (case map_of (rev kvs) ''questions'' of
             Some (JArr items) \<Rightarrow>
               (if list_all is_jstr items then Inr \<lparr>questions = map jstr_val items\<rparr>
                else Inl (ValidationError ''questions''))
           | _ \<Rightarrow> Inl (ValidationError ''questions''))
      | _ \<Rightarrow> Inl (ValidationError ''GeneratedQuestions''))"

definition structured_questions :: "json option \<Rightarrow> generated_questions result" where
  "structured_questions out =
     (case out of
        None \<Rightarrow> Inl (AttributeError ''questions'')
      | Some v \<Rightarrow> validate_questions v)"

record services =
  gen_questions :: "string \<Rightarrow> json option"
  search :: "string \<Rightarrow> doc list"
  summarize :: "string list \<Rightarrow> string"
  retrieve :: "string \<Rightarrow> doc list"

datatype llm_call = QuestionsCall string | SummaryCall "string list"

definition prompt_head :: string where
  \<open>prompt_head =
     ''You are a financial research agent. Your task is to generate 10 sharp, analytical questions that help extract ONLY those details which impact financial markets, asset pricing, risk sentiment, regulatory direction, and investment allocations.'' @
     [NL] @
     [] @
     [NL] @
     ''Input Topic: ''\<close>

definition prompt_tail :: string where
  \<open>prompt_tail =
     [NL] @
     [] @
     [NL] @
     ''Generate questions that:'' @
     [NL] @
     ''1. Focus on measurable financial impacts.'' @
     [NL] @
     ''2. Help determine current market conditions in equity, debt, commodities, real estate, and crypto.'' @
     [NL] @
     ''3. Extract signals relevant to inflation, interest rates, risk appetite, liquidity, geopolitics, regulatory stance, taxation, supply-demand cycles, institutional flows, corporate earnings, and long-term structural trends.'' @
     [NL] @
     ''4. Are specific enough to allow extraction of facts from reliable news sources or research reports.'' @
     [NL] @
     ''5. Avoid vague social, medical, humanitarian, or philosophical aspects unless they have direct financial implications.'' @
     [NL] @
     [] @
     [NL] @
     ''Sample framework for question types:'' @
     [NL] @
     ''- Central bank policy stance'' @
     [NL] @
     ''- Inflation projections'' @
     [NL] @
     ''- Fiscal or taxation shifts'' @
     [NL] @
     ''- Institutional equity/debt flows'' @
     [NL] @
     ''- Commodity cycle behavior'' @
     [NL] @
     ''- Real estate liquidity, demand, or yields'' @
     [NL] @
     ''- Credit conditions and bond yield movements'' @
     [NL] @
     ''- Geopolitical risk triggers'' @
     [NL] @
     ''- Regulatory tightening or easing'' @
     [NL] @
     ''- Corporate earnings health'' @
     [NL] @
     ''- Sector rotation trends'' @
     [NL] @
     [] @
     [NL] @
     ''Output Format:'' @
     [NL] @
     ''['' @
     [NL] @
     ''  "question-1",'' @
     [NL] @
     ''  "question-2",'' @
     [NL] @
     ''  ...'' @
     [NL] @
     ''  "question-10"'' @
     [NL] @
     '']'' @
     [NL] @
     [] @
     [NL] @
     ''The questions MUST depend on the given topic.'' @
     [NL] @
     [] @
     [NL] @
     ''Examples:'' @
     [NL] @
     ''If topic is "COVID pandemic", ask things like:'' @
     [NL] @
     ''- "How did pandemic restrictions affect corporate earnings, layoffs, and demand recovery?"'' @
     [NL] @
     ''- "What emergency rate cuts, liquidity injections, or fiscal stimulus were deployed by central banks/governments?"'' @
     [NL] @
     [] @
     [NL] @
     ''If topic is "Cross-border military conflict":'' @
     [NL] @
     ''- "How are defense budgets changing?"'' @
     [NL] @
     ''- "What sanctions are affecting currency flows, commodity pricing, and corporate earnings exposure?"'' @
     [NL] @
     [] @
     [NL] @
     ''Now generate 10 such questions for the topic above.'' @
     [NL]\<close>

definition question_prompt :: string where
  "question_prompt = prompt_head @ ''{USER_TOPIC}'' @ prompt_tail"

definition user_topic :: string where
  "user_topic = ''Current Market Trend''"

definition collect_news :: "doc list list \<Rightarrow> string list result" where
  "collect_news results =
     bind_res (traverse_res (\<lambda>i. bind_res (py_getitem i 0) (\<lambda>d0.
                                bind_res (py_getitem i 1) (\<lambda>d1.
                                  Inr [page_content d0, page_content d1]))) results)
       (\<lambda>ps. Inr (concat ps))"

subsection \<open>Collecting the news\<close>

lemma collect_news_eq:
  "collect_news results =
     (if list_all (\<lambda>r. 2 \<le> length r) results
      then Inr (concat (map (\<lambda>r. [page_content (r ! 0), page_content (r ! 1)]) results))
      else Inl IndexError)"
proof (induction results)
  case Nil
  then show ?case by (simp add: collect_news_def)
next
  case (Cons r rs)
  have step: "collect_news (r # rs) =
      bind_res (bind_res (py_getitem r 0) (\<lambda>d0. bind_res (py_getitem r 1) (\<lambda>d1. Inr [page_content d0, page_content d1])))
        (\<lambda>p. bind_res (collect_news rs) (\<lambda>ns. Inr (p @ ns)))"
    by (simp add: collect_news_def bind_res_def split: sum.splits)
  show ?case
  proof (cases "2 \<le> length r")
    case True
    then have "r \<noteq> []" by auto
    with True show ?thesis using Cons by (simp add: step py_getitem_def bind_res_def split: sum.splits)
  next
    case False
    then show ?thesis by (simp add: step py_getitem_def bind_res_def)
  qed
qed

lemma prompt_head_plain: "CHR ''{'' \<notin> set prompt_head \<and> CHR ''}'' \<notin> set prompt_head"
  by (simp add: prompt_head_def)

lemma prompt_tail_plain: "CHR ''{'' \<notin> set prompt_tail \<and> CHR ''}'' \<notin> set prompt_tail"
  by (simp add: prompt_tail_def)

lemma question_prompt_format:
  "py_format1 question_prompt ''USER_TOPIC'' user_topic = Inr (prompt_head @ user_topic @ prompt_tail)"
proof -
  have "py_format1 prompt_tail ''USER_TOPIC'' user_topic = Inr prompt_tail"
    using py_format1_plain [of prompt_tail "[]"] prompt_tail_plain by simp
  then have "py_format1 (''{USER_TOPIC}'' @ prompt_tail) ''USER_TOPIC'' user_topic = Inr (user_topic @ prompt_tail)"
    by simp
  then show ?thesis
    using py_format1_plain [of prompt_head] prompt_head_plain by (simp add: question_prompt_def)
qed

lemma validate_questions_Inl:
  "validate_questions v = Inl e \<Longrightarrow> \<exists>loc. e = ValidationError loc"
  by (auto simp: validate_questions_def split: json.splits option.splits if_splits)

lemma structured_questions_Inl:
  "structured_questions out = Inl e \<Longrightarrow>
     (\<exists>loc. e = ValidationError loc) \<or> (out = None \<and> e = AttributeError ''questions'')"
  by (cases out) (auto simp: structured_questions_def dest: validate_questions_Inl)

lemma concat_pairs_nth:
  "i < length rs \<Longrightarrow>
     concat (map (\<lambda>r. [f r, g r]) rs) ! (2 * i) = f (rs ! i) \<and>
     concat (map (\<lambda>r. [f r, g r]) rs) ! (2 * i + 1) = g (rs ! i)"
proof (induction rs arbitrary: i)
  case (Cons r rs)
  then show ?case by (cases i) auto
qed simp

text \<open>C14. Collecting the news keeps exactly the first two articles of every search result, in order: the list is twice as long as the results, with the two page contents of result i at positions 2i and 2i+1.\<close>

theorem collect_news_pairs:
  assumes "collect_news results = Inr news"
  shows "length news = 2 * length results \<and>
         (\<forall>i < length results. news ! (2 * i) = page_content (results ! i ! 0) \<and>
                               news ! (2 * i + 1) = page_content (results ! i ! 1))"
proof -
  have news: "news = concat (map (\<lambda>r. [page_content (r ! 0), page_content (r ! 1)]) results)"
    using assms by (simp add: collect_news_eq split: if_splits)
  have "length news = 2 * length results"
    by (simp add: news length_concat comp_def sum_list_triv)
  moreover have "\<forall>i < length results. news ! (2 * i) = page_content (results ! i ! 0) \<and>
                               news ! (2 * i + 1) = page_content (results ! i ! 1)"
    unfolding news
    using concat_pairs_nth [where f = "\<lambda>r. page_content (r ! 0)" and g = "\<lambda>r. page_content (r ! 1)"]
    by blast
  ultimately show ?thesis ..
qed

theorem collect_news_pairs_witness:
  "collect_news [[\<lparr>page_content = ''Rates held.'', metadata = []\<rparr>, \<lparr>page_content = ''Yields fell.'', metadata = []\<rparr>]] =
     Inr [''Rates held.'', ''Yields fell.''] \<and>
   length [''Rates held.'', ''Yields fell.''] = 2 * 1"
proof -
  have c: "collect_news [[\<lparr>page_content = ''Rates held.'', metadata = []\<rparr>, \<lparr>page_content = ''Yields fell.'', metadata = []\<rparr>]] =
     Inr [''Rates held.'', ''Yields fell.'']"
    by (simp add: collect_news_eq)
  show ?thesis using c collect_news_pairs [OF c] by simp
qed

end
