(* ===== verification/DeltaNormalizer.thy ===== *)
theory DeltaNormalizer
  imports Frame
begin

text \<open>
  \<open>apply_instrument_deltas\<close> of \<open>src/marketTrend.py\<close> (lines 136--177), the
  Delta-Normalizer of the spec. It reads a strategy table, checks that every delta key
  names an instrument column (every column but \<open>Client Type\<close>), writes for each
  instrument \<open>c\<close> a column \<open>c_adj\<close> holding the weight adjusted by its delta
  percentage, sums the adjusted columns into \<open>row_total\<close>, replaces a zero total by
  one, writes \<open>c_final = c_adj / row_total * 100\<close>, and returns the columns
  \<open>Client Type\<close> and \<open>c_final\<close>. The table is the frame of theory \<open>Frame\<close>
  (reading and writing the CSV files is not modelled; the value returned is the one
  written). The delta dictionary is an association list in its insertion order.

  \<open>normalize_row\<close> is the spec's per-row contract (section 4.1); the refinement
  theorem says the data-frame code computes it on every row of a table whose column
  names do not collide with the names the code derives.
\<close>

definition adj_name :: "string \<Rightarrow> string" where
  "adj_name c = c @ ''_adj''"

definition final_name :: "string \<Rightarrow> string" where
  "final_name c = c @ ''_final''"

definition instrument_cols :: "frame \<Rightarrow> string list" where
  "instrument_cols df = filter (\<lambda>c. c \<noteq> ''Client Type'') (frame_columns df)"

definition missing_keys :: "(string \<times> real) list \<Rightarrow> string list \<Rightarrow> string list" where
  "missing_keys deltas icols = filter (\<lambda>k. k \<notin> set icols) (map fst deltas)"

text \<open>The loop of lines 156--162: one \<open>_adj\<close> column per instrument, in column order.\<close>

fun apply_deltas_loop :: "(string \<times> real) list \<Rightarrow> string list \<Rightarrow> frame \<Rightarrow> frame result" where
  "apply_deltas_loop deltas [] df = Inr df"
| "apply_deltas_loop deltas (c # cs) df =
     (if c \<in> set (map fst deltas) then
        bind_res (frame_getitem df c) (\<lambda>col. bind_res (astype_float col) (\<lambda>base.
          case map_of deltas c of
            None \<Rightarrow> Inl (KeyError c)
          | Some pct \<Rightarrow>
              apply_deltas_loop deltas cs
                (frame_setitem df (adj_name c) (map (\<lambda>b. Num (b + b * pct / 100)) base))))
      else
        bind_res (frame_getitem df c) (\<lambda>col. bind_res (astype_float col) (\<lambda>base.
          apply_deltas_loop deltas cs (frame_setitem df (adj_name c) (map Num base)))))"

text \<open>The loop of lines 170--171: \<open>df[c_final] = df[c_adj] / df[row_total] * 100.0\<close>.\<close>

fun finalize_loop :: "string list \<Rightarrow> frame \<Rightarrow> frame result" where
  "finalize_loop [] df = Inr df"
| "finalize_loop (c # cs) df =
     bind_res (frame_getitem df (adj_name c)) (\<lambda>a.
     bind_res (frame_getitem df ''row_total'') (\<lambda>t.
     bind_res (series_nums a) (\<lambda>av.
     bind_res (series_nums t) (\<lambda>tv.
       finalize_loop cs (frame_setitem df (final_name c) (map Num (map2 (\<lambda>x y. x / y * 100) av tv)))))))"

definition apply_instrument_deltas :: "frame \<Rightarrow> (string \<times> real) list \<Rightarrow> frame result" where
  "apply_instrument_deltas df deltas =
     (let icols = instrument_cols df;
          missing = missing_keys deltas icols
      in if missing \<noteq> [] then Inl (DeltaKeysNotFound missing)
      else
        bind_res (apply_deltas_loop deltas icols df) (\<lambda>df1.
        let adj_cols = map adj_name icols in
        bind_res (frame_select df1 adj_cols) (\<lambda>sub.
        bind_res (frame_sum_rows sub) (\<lambda>tot.
        let df2 = frame_setitem df1 ''row_total'' (map Num tot) in
        bind_res (frame_getitem df2 ''row_total'') (\<lambda>rt.
        let df3 = frame_setitem df2 ''row_total'' (series_replace rt 0 1) in
        bind_res (finalize_loop icols df3) (\<lambda>df4.
        frame_select df4 (''Client Type'' # map final_name icols)))))))"

subsection \<open>The spec's contract\<close>

definition adjust_value :: "(string \<times> real) list \<Rightarrow> string \<Rightarrow> real \<Rightarrow> real" where
  "adjust_value deltas c w = (case map_of deltas c of Some d \<Rightarrow> w + w * d / 100 | None \<Rightarrow> w)"

definition normalize_row :: "(string \<times> real) list \<Rightarrow> (string \<times> real) list \<Rightarrow> (string \<times> real) list" where
  "normalize_row deltas row =
     (let a = map (\<lambda>(c, w). (c, adjust_value deltas c w)) row;
          total = sum_list (map snd a);
          total' = (if total = 0 then 1 else total)
      in map (\<lambda>(c, x). (c, x / total' * 100)) a)"

text \<open>
  The inputs the refinement is about: a well-formed table whose instrument columns are
  numeric, where no instrument is named like another's \<open>_adj\<close> column, and whose
  delta keys all name instruments; \<open>valid_table\<close> adds that the table has its
  \<open>Client Type\<close> column.
\<close>

definition table_ok :: "frame \<Rightarrow> (string \<times> real) list \<Rightarrow> bool" where
  "table_ok df deltas \<longleftrightarrow>
     frame_wf df \<and>
     list_all (numeric_column df) (instrument_cols df) \<and>
     list_all (\<lambda>c. adj_name c \<notin> set (instrument_cols df)) (instrument_cols df) \<and>
     missing_keys deltas (instrument_cols df) = []"

definition valid_table :: "frame \<Rightarrow> (string \<times> real) list \<Rightarrow> bool" where
  "valid_table df deltas \<longleftrightarrow> table_ok df deltas \<and> ''Client Type'' \<in> set (frame_columns df)"

text \<open>
  The sum of a row's adjusted weights, before the zero substitution; and the scenario of
  the spec's section 8, one client type with weights 50, 30 and 20.
\<close>

definition adjusted_total :: "(string \<times> real) list \<Rightarrow> (string \<times> real) list \<Rightarrow> real" where
  "adjusted_total deltas row = sum_list (map (\<lambda>(c, w). adjust_value deltas c w) row)"

definition example_table :: frame where
  "example_table = \<lparr>nrows = 1, cols = [(''Client Type'', [Str ''Conservative'']),
      (''A'', [Num 50]), (''B'', [Num 30]), (''C'', [Num 20])]\<rparr>"

text \<open>Example tables: a name collision, and a large negative delta that zeroes a row total.\<close>

definition collision_table :: frame where
  "collision_table = \<lparr>nrows = 1, cols = [(''Client Type'', [Str ''Balanced'']),
      (''A'', [Num 50]), (''A_adj'', [Num 50])]\<rparr>"

definition negative_table :: frame where
  "negative_table = \<lparr>nrows = 1, cols = [(''Client Type'', [Str ''Balanced'']),
      (''A'', [Num 50]), (''B'', [Num 50])]\<rparr>"

subsection \<open>States of the computation\<close>

text \<open>
  The values the code computes on the way: the adjusted columns, the row totals, the
  totals after \<open>replace(0, 1.0)\<close>, the frame after the second loop, and the frame
  it returns.
\<close>

definition adj_vals :: "(string \<times> real) list \<Rightarrow> frame \<Rightarrow> string \<Rightarrow> real list" where
  "adj_vals deltas df c = map (adjust_value deltas c) (col_reals df c)"

definition row_totals :: "(string \<times> real) list \<Rightarrow> frame \<Rightarrow> real list" where
  "row_totals deltas df =
     map (\<lambda>r. sum_list (map (\<lambda>c. adj_vals deltas df c ! r) (instrument_cols df))) [0..<nrows df]"

definition nonzero_totals :: "real list \<Rightarrow> real list" where
  "nonzero_totals ts = map (\<lambda>t. if t = 0 then 1 else t) ts"

definition expected_output :: "frame \<Rightarrow> (string \<times> real) list \<Rightarrow> frame" where
  "expected_output df deltas =
     df\<lparr>cols := (''Client Type'', column_of df ''Client Type'') #
        map (\<lambda>c. (final_name c, map Num (map2 (\<lambda>x y. x / y * 100) (adj_vals deltas df c)
                                          (nonzero_totals (row_totals deltas df)))))
            (instrument_cols df)\<rparr>"

definition staged_frame :: "(string \<times> real) list \<Rightarrow> frame \<Rightarrow> frame" where
  "staged_frame deltas df =
     (let ic = instrument_cols df;
          tot = row_totals deltas df;
          df1 = fold (\<lambda>c d. frame_setitem d (adj_name c) (map Num (adj_vals deltas df c))) ic df;
          df3 = frame_setitem (frame_setitem df1 ''row_total'' (map Num tot))
                  ''row_total'' (map Num (nonzero_totals tot))
      in fold (\<lambda>c d. frame_setitem d (final_name c)
              (map Num (map2 (\<lambda>x y. x / y * 100) (adj_vals deltas df c) (nonzero_totals tot)))) ic df3)"



subsection \<open>Derived names\<close>

lemma append_neq_not_suffix: "\<not> suffix s t \<Longrightarrow> xs @ s \<noteq> t"
  by (auto simp: suffix_def)

lemma append_neq_last: "s \<noteq> [] \<Longrightarrow> t \<noteq> [] \<Longrightarrow> last s \<noteq> last t \<Longrightarrow> xs @ s \<noteq> ys @ t"
  by (metis append_suffix_last)

lemma adj_name_inj [simp]: "adj_name a = adj_name b \<longleftrightarrow> a = b"
  by (simp add: adj_name_def)

lemma final_name_inj [simp]: "final_name a = final_name b \<longleftrightarrow> a = b"
  by (simp add: final_name_def)

lemma final_neq_adj [simp]: "final_name a \<noteq> adj_name b"
  unfolding final_name_def adj_name_def by (rule append_neq_last) simp_all

lemma adj_neq_final [simp]: "adj_name a \<noteq> final_name b"
  using final_neq_adj by metis

lemma final_neq_row_total [simp]: "final_name a \<noteq> ''row_total''"
  unfolding final_name_def by (rule append_neq_not_suffix) (simp add: suffix_to_prefix)

lemma adj_neq_row_total [simp]: "adj_name a \<noteq> ''row_total''"
  unfolding adj_name_def by (rule append_neq_not_suffix) (simp add: suffix_to_prefix)

lemma adj_neq_client [simp]: "adj_name a \<noteq> ''Client Type''"
  unfolding adj_name_def by (rule append_neq_not_suffix) (simp add: suffix_to_prefix)

lemma final_neq_client [simp]: "final_name a \<noteq> ''Client Type''"
  unfolding final_name_def by (rule append_neq_not_suffix) (simp add: suffix_to_prefix)

lemmas derived_names_neq_sym [simp] =
  final_neq_row_total [THEN not_sym] adj_neq_row_total [THEN not_sym]
  adj_neq_client [THEN not_sym] final_neq_client [THEN not_sym]

lemma inj_adj_name: "inj_on adj_name A"
  by (rule inj_onI) simp

lemma inj_final_name: "inj_on final_name A"
  by (rule inj_onI) simp

subsection \<open>The two loops\<close>

lemma adjust_value_Some: "map_of deltas c = Some d \<Longrightarrow> adjust_value deltas c w = w + w * d / 100"
  by (simp add: adjust_value_def)

lemma adjust_value_None: "map_of deltas c = None \<Longrightarrow> adjust_value deltas c w = w"
  by (simp add: adjust_value_def)

lemma apply_deltas_loop_Inr:
  assumes "\<forall>c \<in> set cs. map_of (cols df) c = Some (map Num (ws c))"
    and "\<forall>c \<in> set cs. \<forall>c' \<in> set cs. adj_name c \<noteq> c'"
  shows "apply_deltas_loop deltas cs df =
           Inr (fold (\<lambda>c d. frame_setitem d (adj_name c) (map Num (map (adjust_value deltas c) (ws c)))) cs df)"
  using assms
proof (induction cs arbitrary: df)
  case (Cons c cs)
  let ?df' = "frame_setitem df (adj_name c) (map Num (map (adjust_value deltas c) (ws c)))"
  have get: "frame_getitem df c = Inr (map Num (ws c))"
    using Cons.prems(1) by (simp add: frame_getitem_def)
  have "\<forall>c' \<in> set cs. map_of (cols ?df') c' = Some (map Num (ws c'))"
    using Cons.prems by (auto simp: map_of_setitem)
  moreover have "\<forall>c \<in> set cs. \<forall>c' \<in> set cs. adj_name c \<noteq> c'"
    using Cons.prems(2) by simp
  ultimately have IH: "apply_deltas_loop deltas cs ?df' =
      Inr (fold (\<lambda>c d. frame_setitem d (adj_name c) (map Num (map (adjust_value deltas c) (ws c)))) cs ?df')"
    by (rule Cons.IH)
  show ?case
  proof (cases "map_of deltas c")
    case None
    then have "c \<notin> set (map fst deltas)" by (simp add: map_of_eq_None_iff)
    with None get IH show ?thesis by (simp add: adjust_value_None comp_def)
  next
    case (Some d)
    then have "c \<in> fst ` set deltas" by (metis domI dom_map_of_conv_image_fst)
    then have "c \<in> set (map fst deltas)" by simp
    with Some get IH show ?thesis by (simp add: adjust_value_Some comp_def)
  qed
qed simp

lemma finalize_loop_Inr:
  assumes "\<forall>c \<in> set cs. map_of (cols df) (adj_name c) = Some (map Num (av c))"
    and "map_of (cols df) ''row_total'' = Some (map Num tv)"
  shows "finalize_loop cs df =
           Inr (fold (\<lambda>c d. frame_setitem d (final_name c) (map Num (map2 (\<lambda>x y. x / y * 100) (av c) tv))) cs df)"
  using assms
proof (induction cs arbitrary: df)
  case (Cons c cs)
  let ?df' = "frame_setitem df (final_name c) (map Num (map2 (\<lambda>x y. x / y * 100) (av c) tv))"
  have "\<forall>c' \<in> set cs. map_of (cols ?df') (adj_name c') = Some (map Num (av c'))"
    using Cons.prems(1) by (simp add: map_of_setitem)
  moreover have "map_of (cols ?df') ''row_total'' = Some (map Num tv)"
    using Cons.prems(2) by (simp add: map_of_setitem)
  ultimately have IH: "finalize_loop cs ?df' =
      Inr (fold (\<lambda>c d. frame_setitem d (final_name c) (map Num (map2 (\<lambda>x y. x / y * 100) (av c) tv))) cs ?df')"
    by (rule Cons.IH)
  with Cons.prems show ?case by (simp add: frame_getitem_def)
qed simp

lemma setitem_cols_update [simp]: "(frame_setitem df c v)\<lparr>cols := X\<rparr> = df\<lparr>cols := X\<rparr>"
  by (simp add: frame_setitem_def)

lemma fold_setitem_cols_update [simp]:
  "(fold (\<lambda>c d. frame_setitem d (f c) (g c)) cs df)\<lparr>cols := X\<rparr> = df\<lparr>cols := X\<rparr>"
  by (induction cs arbitrary: df) simp_all

lemma instrument_cols_sub: "set (instrument_cols df) \<subseteq> set (frame_columns df)"
  by (auto simp: instrument_cols_def)

lemma client_notin_instrument_cols [simp]: "''Client Type'' \<notin> set (instrument_cols df)"
  by (simp add: instrument_cols_def)

lemma table_ok_lookup:
  "table_ok df deltas \<Longrightarrow> c \<in> set (instrument_cols df) \<Longrightarrow>
     map_of (cols df) c = Some (map Num (col_reals df c))"
  by (auto simp: table_ok_def list_all_iff intro: numeric_column_lookup)

lemma valid_table_lookup:
  "valid_table df deltas \<Longrightarrow> c \<in> set (instrument_cols df) \<Longrightarrow>
     map_of (cols df) c = Some (map Num (col_reals df c))"
  unfolding valid_table_def using table_ok_lookup by blast

text \<open>
  On a table without name collisions, the code runs its two loops to the end and the
  result is the selection of the requested columns from \<open>staged_frame\<close>.
\<close>

lemma apply_instrument_deltas_staged:
  assumes v: "table_ok df deltas"
  shows "apply_instrument_deltas df deltas =
           frame_select (staged_frame deltas df) (''Client Type'' # map final_name (instrument_cols df))"
proof -
  let ?ic = "instrument_cols df"
  let ?av = "adj_vals deltas df"
  let ?tot = "row_totals deltas df"
  let ?tot' = "nonzero_totals ?tot"
  define df1 where "df1 = fold (\<lambda>c d. frame_setitem d (adj_name c) (map Num (?av c))) ?ic df"
  define df2 where "df2 = frame_setitem df1 ''row_total'' (map Num ?tot)"
  define df3 where "df3 = frame_setitem df2 ''row_total'' (map Num ?tot')"
  have df4: "staged_frame deltas df = fold (\<lambda>c d. frame_setitem d (final_name c)
                       (map Num (map2 (\<lambda>x y. x / y * 100) (?av c) ?tot'))) ?ic df3"
    by (simp add: staged_frame_def Let_def df1_def df2_def df3_def)
  have miss: "missing_keys deltas ?ic = []"
    using v by (simp add: table_ok_def)
  have nocoll: "\<forall>c \<in> set ?ic. \<forall>c' \<in> set ?ic. adj_name c \<noteq> c'"
    using v by (auto simp: table_ok_def list_all_iff)
  have loop1: "apply_deltas_loop deltas ?ic df = Inr df1"
    unfolding df1_def adj_vals_def
    by (rule apply_deltas_loop_Inr) (use v table_ok_lookup nocoll in auto)
  have adj1: "map_of (cols df1) (adj_name c) = Some (map Num (?av c))" if "c \<in> set ?ic" for c
    unfolding df1_def using that by (rule fold_setitem_same) (rule inj_adj_name)
  have cols1: "set (frame_columns df1) = set (frame_columns df) \<union> adj_name ` set ?ic"
    unfolding df1_def by (rule fold_setitem_columns)
  have sel1: "frame_select df1 (map adj_name ?ic) = Inr (df1\<lparr>cols := map (\<lambda>c. (adj_name c, map Num (?av c))) ?ic\<rparr>)"
    using frame_select_Inr [of "map adj_name ?ic" df1] cols1 adj1 by (simp add: comp_def column_of_Some)
  have sum1: "frame_sum_rows (df1\<lparr>cols := map (\<lambda>c. (adj_name c, map Num (?av c))) ?ic\<rparr>) = Inr ?tot"
    by (simp add: frame_sum_rows_Num df1_def row_totals_def)
  have get2: "frame_getitem df2 ''row_total'' = Inr (map Num ?tot)"
    by (simp add: df2_def frame_getitem_setitem)
  have rep: "series_replace (map Num ?tot) 0 1 = map Num ?tot'"
    by (simp add: series_replace_Num nonzero_totals_def)
  have loop2: "finalize_loop ?ic df3 = Inr (staged_frame deltas df)"
    unfolding df4 by (rule finalize_loop_Inr) (simp_all add: df3_def df2_def map_of_setitem adj1)
  show ?thesis
    using miss loop1 sel1 sum1 get2 rep loop2
    by (simp add: apply_instrument_deltas_def Let_def df2_def [symmetric] df3_def [symmetric])
qed

lemma staged_frame_columns:
  "set (frame_columns (staged_frame deltas df)) =
     set (frame_columns df) \<union> adj_name ` set (instrument_cols df) \<union> {''row_total''} \<union>
     final_name ` set (instrument_cols df)"
  by (auto simp: staged_frame_def Let_def fold_setitem_columns frame_columns_setitem)

lemma staged_frame_client:
  "column_of (staged_frame deltas df) ''Client Type'' = column_of df ''Client Type''"
proof -
  have "''Client Type'' \<notin> final_name ` set (instrument_cols df)"
    and "''Client Type'' \<notin> adj_name ` set (instrument_cols df)"
    by auto
  then show ?thesis
    by (simp add: column_of_def staged_frame_def Let_def fold_setitem_other map_of_setitem)
qed

lemma staged_frame_final:
  "c \<in> set (instrument_cols df) \<Longrightarrow>
     column_of (staged_frame deltas df) (final_name c) =
       map Num (map2 (\<lambda>x y. x / y * 100) (adj_vals deltas df c) (nonzero_totals (row_totals deltas df)))"
  unfolding staged_frame_def Let_def column_of_def
  using fold_setitem_same [OF _ inj_final_name] by simp

lemma apply_instrument_deltas_output:
  assumes v: "valid_table df deltas"
  shows "apply_instrument_deltas df deltas = Inr (expected_output df deltas)"
proof -
  have ok: "table_ok df deltas" and ct: "''Client Type'' \<in> set (frame_columns df)"
    using v by (simp_all add: valid_table_def)
  have cols4: "set (''Client Type'' # map final_name (instrument_cols df)) \<subseteq>
                 set (frame_columns (staged_frame deltas df))"
    using ct by (auto simp: staged_frame_columns)
  have "frame_select (staged_frame deltas df) (''Client Type'' # map final_name (instrument_cols df)) =
          Inr (expected_output df deltas)"
    using frame_select_Inr [OF cols4] staged_frame_client staged_frame_final
    by (simp add: expected_output_def staged_frame_def Let_def comp_def)
  with apply_instrument_deltas_staged [OF ok] show ?thesis by simp
qed

subsection \<open>Rows of the output\<close>

lemma map_of_map_inj:
  "k \<in> set ks \<Longrightarrow> inj_on f (set ks) \<Longrightarrow> map_of (map (\<lambda>k. (f k, g k)) ks) (f k) = Some (g k)"
proof (induction ks)
  case (Cons x ks)
  then show ?case by (cases "k = x") (auto simp: inj_on_def)
qed simp

lemma valid_table_length:
  "valid_table df deltas \<Longrightarrow> c \<in> set (instrument_cols df) \<Longrightarrow> length (col_reals df c) = nrows df"
  using valid_table_lookup [of df deltas c]
  by (auto simp: valid_table_def table_ok_def dest: frame_wf_column_length)

lemma row_totals_nth:
  "r < nrows df \<Longrightarrow> row_totals deltas df ! r = sum_list (map (\<lambda>c. adj_vals deltas df c ! r) (instrument_cols df))"
  by (simp add: row_totals_def)

lemma expected_output_column:
  assumes "c \<in> set (instrument_cols df)"
  shows "col_reals (expected_output df deltas) (final_name c) =
           map2 (\<lambda>x y. x / y * 100) (adj_vals deltas df c) (nonzero_totals (row_totals deltas df))"
proof -
  have "map_of (map (\<lambda>c. (final_name c, map Num (map2 (\<lambda>x y. x / y * 100) (adj_vals deltas df c)
           (nonzero_totals (row_totals deltas df))))) (instrument_cols df)) (final_name c) =
        Some (map Num (map2 (\<lambda>x y. x / y * 100) (adj_vals deltas df c) (nonzero_totals (row_totals deltas df))))"
    by (rule map_of_map_inj [OF assms inj_final_name])
  then show ?thesis
    by (simp add: col_reals_def column_of_def expected_output_def comp_def)
qed

lemma expected_output_row:
  assumes v: "valid_table df deltas" and r: "r < nrows df"
  shows "frame_row (expected_output df deltas) (map final_name (instrument_cols df)) r =
           map (\<lambda>(c, x). (final_name c, x)) (normalize_row deltas (frame_row df (instrument_cols df) r))"
proof -
  let ?ic = "instrument_cols df"
  let ?a = "\<lambda>c. adjust_value deltas c (col_reals df c ! r)"
  have av: "adj_vals deltas df c ! r = ?a c" if "c \<in> set ?ic" for c
    using valid_table_length [OF v that] r by (simp add: adj_vals_def)
  have tot: "row_totals deltas df ! r = sum_list (map ?a ?ic)"
    using r av by (simp add: row_totals_nth cong: map_cong)
  have len: "length (adj_vals deltas df c) = nrows df" if "c \<in> set ?ic" for c
    using valid_table_length [OF v that] by (simp add: adj_vals_def)
  have "col_reals (expected_output df deltas) (final_name c) ! r =
          ?a c / (if sum_list (map ?a ?ic) = 0 then 1 else sum_list (map ?a ?ic)) * 100"
    if "c \<in> set ?ic" for c
    using expected_output_column [OF that] len [OF that] av [OF that] tot r
    by (simp add: nonzero_totals_def row_totals_def)
  then show ?thesis
    by (simp add: frame_row_def normalize_row_def Let_def comp_def cong: map_cong)
qed

text \<open>C1. On every valid table (well-formed, numeric instrument columns, no instrument named like another one's \<open>_adj\<close> column, every delta key an instrument, a \<open>Client Type\<close> column), \<open>apply_instrument_deltas\<close> succeeds, keeps the row count and the client types, returns the columns \<open>Client Type\<close> and \<open>c_final\<close> in column order, and every output row is the spec's \<open>normalize_row\<close> of the input row.\<close>

theorem apply_instrument_deltas_refines:
  assumes "valid_table df deltas"
  shows "\<exists>out. apply_instrument_deltas df deltas = Inr out \<and> nrows out = nrows df \<and>
           frame_columns out = ''Client Type'' # map final_name (instrument_cols df) \<and>
           column_of out ''Client Type'' = column_of df ''Client Type'' \<and>
           (\<forall>r < nrows df. frame_row out (map final_name (instrument_cols df)) r =
              map (\<lambda>(c, x). (final_name c, x)) (normalize_row deltas (frame_row df (instrument_cols df) r)))"
proof (intro exI conjI allI impI)
  show "apply_instrument_deltas df deltas = Inr (expected_output df deltas)"
    using assms by (rule apply_instrument_deltas_output)
  show "frame_row (expected_output df deltas) (map final_name (instrument_cols df)) r =
          map (\<lambda>(c, x). (final_name c, x)) (normalize_row deltas (frame_row df (instrument_cols df) r))"
    if "r < nrows df" for r
    using assms that by (rule expected_output_row)
qed (simp_all add: expected_output_def frame_columns_def comp_def column_of_def)

subsection \<open>The contract on one row\<close>

lemma sum_list_scale:
  "sum_list (map (\<lambda>x. x / t * 100) xs) = sum_list xs / t * (100::real)"
  by (induction xs) (simp_all add: add_divide_distrib distrib_right)

lemma normalize_row_values:
  "map snd (normalize_row deltas row) =
     map (\<lambda>x. x / (if adjusted_total deltas row = 0 then 1 else adjusted_total deltas row) * 100)
       (map (\<lambda>(c, w). adjust_value deltas c w) row)"
  by (simp add: normalize_row_def adjusted_total_def Let_def comp_def split_def)

lemma normalize_row_sum:
  "adjusted_total deltas row \<noteq> 0 \<Longrightarrow> sum_list (map snd (normalize_row deltas row)) = 100"
  unfolding normalize_row_values sum_list_scale by (simp add: adjusted_total_def)

lemma normalize_row_zero_total:
  "adjusted_total deltas row = 0 \<Longrightarrow> sum_list (map snd (normalize_row deltas row)) = 0"
  unfolding normalize_row_values sum_list_scale by (simp add: adjusted_total_def)

lemma adjust_value_zero_deltas:
  "list_all (\<lambda>(k, d). d = 0) deltas \<Longrightarrow> adjust_value deltas c w = w"
  by (auto simp: adjust_value_def list_all_iff split: option.splits dest: map_of_SomeD)

lemma normalize_row_zero_deltas:
  assumes "list_all (\<lambda>(k, d). d = 0) deltas" and "sum_list (map snd row) = 100"
  shows "normalize_row deltas row = row"
proof -
  have a: "adjust_value deltas c w = w" for c w using assms(1) by (rule adjust_value_zero_deltas)
  have t: "adjusted_total deltas row = 100"
    using assms(2) by (simp add: adjusted_total_def a split_def)
  have "normalize_row deltas row = map (\<lambda>(c, x). (c, x / 100 * 100)) row"
    using t by (simp add: normalize_row_def adjusted_total_def a Let_def split_def comp_def)
  then show ?thesis by (simp add: split_def)
qed

lemma adjust_value_nonneg:
  "0 \<le> w \<Longrightarrow> (\<forall>(k, d) \<in> set deltas. -100 \<le> d) \<Longrightarrow> 0 \<le> adjust_value deltas c w"
proof -
  assume w: "0 \<le> w" and d: "\<forall>(k, d) \<in> set deltas. -100 \<le> d"
  show ?thesis
  proof (cases "map_of deltas c")
    case (Some x)
    with d have "-100 \<le> x" by (auto dest: map_of_SomeD)
    then have "0 \<le> w * (1 + x / 100)" using w by simp
    with Some show ?thesis by (simp add: adjust_value_def algebra_simps)
  qed (simp add: adjust_value_def w)
qed

lemma normalize_row_nonneg:
  assumes "\<forall>(c, w) \<in> set row. 0 \<le> w" and "\<forall>(k, d) \<in> set deltas. -100 \<le> d"
  shows "\<forall>x \<in> set (map snd (normalize_row deltas row)). 0 \<le> x"
proof -
  have a: "\<forall>(c, w) \<in> set row. 0 \<le> adjust_value deltas c w"
    using assms adjust_value_nonneg by blast
  then have "0 \<le> adjusted_total deltas row"
    unfolding adjusted_total_def by (induction row) (auto intro: add_nonneg_nonneg)
  with a show ?thesis
    by (auto simp: normalize_row_values intro!: mult_nonneg_nonneg divide_nonneg_pos divide_nonneg_nonneg)
qed

lemmas delta_eval_simps =
  apply_instrument_deltas_def instrument_cols_def frame_columns_def missing_keys_def
  frame_getitem_def frame_setitem_def frame_select_def frame_sum_rows_def series_replace_def
  adj_name_def final_name_def astype_float_def series_nums_def

lemmas table_eval_simps =
  valid_table_def table_ok_def frame_wf_def frame_columns_def instrument_cols_def
  numeric_column_def column_of_def missing_keys_def adj_name_def

lemma example_table_valid: "valid_table example_table [(''A'', 10)]"
  by (simp add: example_table_def table_eval_simps)

theorem apply_instrument_deltas_refines_witness:
  "valid_table example_table [(''A'', 10)] \<and>
   (\<exists>out. apply_instrument_deltas example_table [(''A'', 10)] = Inr out \<and>
      frame_row out [''A_final'', ''B_final'', ''C_final''] 0 =
        map (\<lambda>(c, x). (final_name c, x)) (normalize_row [(''A'', 10)] (frame_row example_table [''A'', ''B'', ''C''] 0)))"
proof -
  have i: "instrument_cols example_table = [''A'', ''B'', ''C'']"
    by (simp add: example_table_def instrument_cols_def frame_columns_def)
  have n: "nrows example_table = 1" by (simp add: example_table_def)
  show ?thesis
    using example_table_valid apply_instrument_deltas_refines [OF example_table_valid]
    by (auto simp: i n final_name_def)
qed

text \<open>C2. Conservation of weight: on a valid table, every output row whose adjusted weights do not sum to zero sums to 100.\<close>

theorem apply_instrument_deltas_row_sum:
  assumes "valid_table df deltas" and "apply_instrument_deltas df deltas = Inr out"
    and "r < nrows df" and "adjusted_total deltas (frame_row df (instrument_cols df) r) \<noteq> 0"
  shows "sum_list (map snd (frame_row out (map final_name (instrument_cols df)) r)) = 100"
proof -
  have "out = expected_output df deltas"
    using assms(2) apply_instrument_deltas_output [OF assms(1)] by simp
  then show ?thesis
    using expected_output_row [OF assms(1,3)] normalize_row_sum [OF assms(4)]
    by (simp add: comp_def split_def)
qed

theorem apply_instrument_deltas_row_sum_witness:
  "valid_table example_table [(''A'', 10)] \<and>
   apply_instrument_deltas example_table [(''A'', 10)] = Inr \<lparr>nrows = 1, cols = [(''Client Type'', [Str ''Conservative'']),
     (''A_final'', [Num (1100/21)]), (''B_final'', [Num (200/7)]), (''C_final'', [Num (400/21)])]\<rparr> \<and>
   0 < nrows example_table \<and>
   adjusted_total [(''A'', 10)] (frame_row example_table (instrument_cols example_table) 0) \<noteq> 0 \<and>
   sum_list (map snd (frame_row \<lparr>nrows = 1, cols = [(''Client Type'', [Str ''Conservative'']),
     (''A_final'', [Num (1100/21)]), (''B_final'', [Num (200/7)]), (''C_final'', [Num (400/21)])]\<rparr>
       (map final_name (instrument_cols example_table)) 0)) = 100"
proof -
  have r: "apply_instrument_deltas example_table [(''A'', 10)] = Inr \<lparr>nrows = 1, cols = [(''Client Type'', [Str ''Conservative'']),
     (''A_final'', [Num (1100/21)]), (''B_final'', [Num (200/7)]), (''C_final'', [Num (400/21)])]\<rparr>"
    by (simp add: example_table_def delta_eval_simps)
  have t: "adjusted_total [(''A'', 10)] (frame_row example_table (instrument_cols example_table) 0) \<noteq> 0"
    by (simp add: example_table_def adjusted_total_def frame_row_def col_reals_def column_of_def
        adjust_value_def instrument_cols_def frame_columns_def)
  have n: "0 < nrows example_table" by (simp add: example_table_def)
  show ?thesis
    using example_table_valid r n t apply_instrument_deltas_row_sum [OF example_table_valid r n t] by simp
qed

text \<open>C3. A delta key that names no instrument column (the \<open>Client Type\<close> column included) makes the function raise the \<open>ValueError\<close> listing the unknown keys, before any column is computed.\<close>

theorem apply_instrument_deltas_missing_key:
  assumes "missing_keys deltas (instrument_cols df) \<noteq> []"
  shows "apply_instrument_deltas df deltas = Inl (DeltaKeysNotFound (missing_keys deltas (instrument_cols df)))"
  using assms by (simp add: apply_instrument_deltas_def Let_def)

theorem apply_instrument_deltas_missing_key_witness:
  "missing_keys [(''Client Type'', 5)] (instrument_cols example_table) \<noteq> [] \<and>
   apply_instrument_deltas example_table [(''Client Type'', 5)] = Inl (DeltaKeysNotFound [''Client Type''])"
proof -
  have m: "missing_keys [(''Client Type'', 5)] (instrument_cols example_table) = [''Client Type'']"
    by (simp add: missing_keys_def example_table_def instrument_cols_def frame_columns_def)
  show ?thesis using apply_instrument_deltas_missing_key [of "[(''Client Type'', 5)]" example_table] m by simp
qed

text \<open>C4. The zero-total policy: on a valid table, a row whose adjusted weights sum to zero is
  divided by 1 instead of its total (line 168 replaces the total 0 by 1), so each output weight is
  the adjusted weight times 100 and the row is not renormalised.\<close>

theorem apply_instrument_deltas_zero_total:
  assumes "valid_table df deltas" and "apply_instrument_deltas df deltas = Inr out"
    and "r < nrows df" and "adjusted_total deltas (frame_row df (instrument_cols df) r) = 0"
  shows "map snd (frame_row out (map final_name (instrument_cols df)) r) =
           map (\<lambda>(c, w). adjust_value deltas c w * 100) (frame_row df (instrument_cols df) r)"
proof -
  have "out = expected_output df deltas"
    using assms(2) apply_instrument_deltas_output [OF assms(1)] by simp
  then have "map snd (frame_row out (map final_name (instrument_cols df)) r) =
               map snd (normalize_row deltas (frame_row df (instrument_cols df) r))"
    using expected_output_row [OF assms(1,3)] by (simp add: comp_def split_def)
  then show ?thesis
    unfolding normalize_row_values using assms(4) by (simp add: comp_def split_def)
qed

lemma negative_table_valid: "valid_table negative_table [(''A'', -200)]"
  by (simp add: negative_table_def table_eval_simps)

theorem apply_instrument_deltas_zero_total_witness:
  "valid_table negative_table [(''A'', -200)] \<and>
   apply_instrument_deltas negative_table [(''A'', -200)] =
     Inr \<lparr>nrows = 1, cols = [(''Client Type'', [Str ''Balanced'']),
       (''A_final'', [Num (-5000)]), (''B_final'', [Num 5000])]\<rparr> \<and>
   0 < nrows negative_table \<and>
   adjusted_total [(''A'', -200)] (frame_row negative_table (instrument_cols negative_table) 0) = 0 \<and>
   map snd (frame_row \<lparr>nrows = 1, cols = [(''Client Type'', [Str ''Balanced'']),
       (''A_final'', [Num (-5000)]), (''B_final'', [Num 5000])]\<rparr>
       (map final_name (instrument_cols negative_table)) 0) =
     map (\<lambda>(c, w). adjust_value [(''A'', -200)] c w * 100)
       (frame_row negative_table (instrument_cols negative_table) 0)"
proof -
  have r: "apply_instrument_deltas negative_table [(''A'', -200)] =
     Inr \<lparr>nrows = 1, cols = [(''Client Type'', [Str ''Balanced'']),
       (''A_final'', [Num (-5000)]), (''B_final'', [Num 5000])]\<rparr>"
    by (simp add: negative_table_def delta_eval_simps)
  have n: "0 < nrows negative_table" by (simp add: negative_table_def)
  have t: "adjusted_total [(''A'', -200)] (frame_row negative_table (instrument_cols negative_table) 0) = 0"
    by (simp add: negative_table_def adjusted_total_def frame_row_def col_reals_def column_of_def
        adjust_value_def instrument_cols_def frame_columns_def)
  show ?thesis
    using negative_table_valid r n t apply_instrument_deltas_zero_total [OF negative_table_valid r n t]
    by simp
qed

text \<open>C5. Deltas that are all zero leave every row that sums to 100 unchanged.\<close>

theorem apply_instrument_deltas_zero_deltas:
  assumes "valid_table df deltas" and "apply_instrument_deltas df deltas = Inr out"
    and "list_all (\<lambda>(k, d). d = 0) deltas" and "r < nrows df"
    and "sum_list (map snd (frame_row df (instrument_cols df) r)) = 100"
  shows "map snd (frame_row out (map final_name (instrument_cols df)) r) =
           map snd (frame_row df (instrument_cols df) r)"
proof -
  have "out = expected_output df deltas"
    using assms(2) apply_instrument_deltas_output [OF assms(1)] by simp
  then show ?thesis
    using expected_output_row [OF assms(1,4)] normalize_row_zero_deltas [OF assms(3,5)]
    by (simp add: comp_def split_def)
qed

theorem apply_instrument_deltas_zero_deltas_witness:
  "valid_table example_table [(''A'', 0)] \<and>
   apply_instrument_deltas example_table [(''A'', 0)] = Inr \<lparr>nrows = 1, cols = [(''Client Type'', [Str ''Conservative'']),
     (''A_final'', [Num 50]), (''B_final'', [Num 30]), (''C_final'', [Num 20])]\<rparr> \<and>
   list_all (\<lambda>(k, d). d = 0) [(''A'', 0::real)] \<and> 0 < nrows example_table \<and>
   sum_list (map snd (frame_row example_table (instrument_cols example_table) 0)) = 100 \<and>
   map snd (frame_row \<lparr>nrows = 1, cols = [(''Client Type'', [Str ''Conservative'']),
     (''A_final'', [Num 50]), (''B_final'', [Num 30]), (''C_final'', [Num 20])]\<rparr>
       (map final_name (instrument_cols example_table)) 0) =
     map snd (frame_row example_table (instrument_cols example_table) 0)"
proof -
  have v: "valid_table example_table [(''A'', 0)]"
    by (simp add: example_table_def table_eval_simps)
  have r: "apply_instrument_deltas example_table [(''A'', 0)] = Inr \<lparr>nrows = 1, cols = [(''Client Type'', [Str ''Conservative'']),
     (''A_final'', [Num 50]), (''B_final'', [Num 30]), (''C_final'', [Num 20])]\<rparr>"
    by (simp add: example_table_def delta_eval_simps)
  have z: "list_all (\<lambda>(k, d). d = 0) [(''A'', 0::real)]" by simp
  have n: "0 < nrows example_table" by (simp add: example_table_def)
  have s: "sum_list (map snd (frame_row example_table (instrument_cols example_table) 0)) = 100"
    by (simp add: example_table_def frame_row_def col_reals_def column_of_def instrument_cols_def frame_columns_def)
  show ?thesis using v r z n s apply_instrument_deltas_zero_deltas [OF v r z n s] by simp
qed

text \<open>C6. With non-negative weights and no delta below -100 percent, every output weight is non-negative.\<close>

theorem apply_instrument_deltas_nonneg:
  assumes "valid_table df deltas" and "apply_instrument_deltas df deltas = Inr out"
    and "\<forall>(c, w) \<in> set (frame_row df (instrument_cols df) r). 0 \<le> w"
    and "\<forall>(k, d) \<in> set deltas. -100 \<le> d" and "r < nrows df"
  shows "\<forall>x \<in> set (map snd (frame_row out (map final_name (instrument_cols df)) r)). 0 \<le> x"
proof -
  have "out = expected_output df deltas"
    using assms(2) apply_instrument_deltas_output [OF assms(1)] by simp
  then show ?thesis
    using expected_output_row [OF assms(1,5)] normalize_row_nonneg [OF assms(3,4)]
    by (simp add: comp_def split_def)
qed

theorem apply_instrument_deltas_nonneg_witness:
  "valid_table example_table [(''A'', -100)] \<and>
   apply_instrument_deltas example_table [(''A'', -100)] = Inr \<lparr>nrows = 1, cols = [(''Client Type'', [Str ''Conservative'']),
     (''A_final'', [Num 0]), (''B_final'', [Num 60]), (''C_final'', [Num 40])]\<rparr> \<and>
   map snd (frame_row example_table (instrument_cols example_table) 0) = [50, 30, 20] \<and>
   0 < nrows example_table \<and>
   map snd (frame_row \<lparr>nrows = 1, cols = [(''Client Type'', [Str ''Conservative'']),
     (''A_final'', [Num 0]), (''B_final'', [Num 60]), (''C_final'', [Num 40])]\<rparr>
       (map final_name (instrument_cols example_table)) 0) = [0, 60, 40]"
proof -
  have v: "valid_table example_table [(''A'', -100)]"
    by (simp add: example_table_def table_eval_simps)
  have r: "apply_instrument_deltas example_table [(''A'', -100)] = Inr \<lparr>nrows = 1, cols = [(''Client Type'', [Str ''Conservative'']),
     (''A_final'', [Num 0]), (''B_final'', [Num 60]), (''C_final'', [Num 40])]\<rparr>"
    by (simp add: example_table_def delta_eval_simps)
  have row: "map snd (frame_row example_table (instrument_cols example_table) 0) = [50, 30, 20]"
    by (simp add: example_table_def frame_row_def col_reals_def column_of_def instrument_cols_def frame_columns_def)
  have w: "\<forall>(c, w) \<in> set (frame_row example_table (instrument_cols example_table) 0). 0 \<le> w"
    by (simp add: example_table_def frame_row_def col_reals_def column_of_def instrument_cols_def frame_columns_def)
  have d: "\<forall>(k, d) \<in> set [(''A'', -100::real)]. -100 \<le> d" by simp
  have n: "0 < nrows example_table" by (simp add: example_table_def)
  have out: "map snd (frame_row \<lparr>nrows = 1, cols = [(''Client Type'', [Str ''Conservative'']),
     (''A_final'', [Num 0]), (''B_final'', [Num 60]), (''C_final'', [Num 40])]\<rparr>
       (map final_name (instrument_cols example_table)) 0) = [0, 60, 40]"
    by (simp add: example_table_def frame_row_def col_reals_def column_of_def instrument_cols_def
        frame_columns_def final_name_def)
  show ?thesis using v r row n out apply_instrument_deltas_nonneg [OF v r w d n] by simp
qed

text \<open>Two computations behind the findings on this component.  Column-name collision: with
  instrument columns A and A_adj, the code overwrites A_adj with the adjusted A before reading
  it, and returns 50 and 50 where the contract gives 200/3 and 100/3 (\<open>valid_table\<close>
  excludes such tables from the refinement).\<close>

theorem apply_instrument_deltas_adj_collision:
  "apply_instrument_deltas collision_table [(''A'', 100)] =
     Inr \<lparr>nrows = 1, cols = [(''Client Type'', [Str ''Balanced'']),
       (''A_final'', [Num 50]), (''A_adj_final'', [Num 50])]\<rparr> \<and>
   normalize_row [(''A'', 100)] (frame_row collision_table (instrument_cols collision_table) 0) =
     [(''A'', 200/3), (''A_adj'', 100/3)]"
proof
  show "apply_instrument_deltas collision_table [(''A'', 100)] =
     Inr \<lparr>nrows = 1, cols = [(''Client Type'', [Str ''Balanced'']),
       (''A_final'', [Num 50]), (''A_adj_final'', [Num 50])]\<rparr>"
    by (simp add: collision_table_def delta_eval_simps)
  show "normalize_row [(''A'', 100)] (frame_row collision_table (instrument_cols collision_table) 0) =
     [(''A'', 200/3), (''A_adj'', 100/3)]"
    by (simp add: collision_table_def normalize_row_def adjust_value_def frame_row_def col_reals_def
        column_of_def instrument_cols_def frame_columns_def)
qed


text \<open>A delta below -100 percent is not rejected: weights 50 and 50 with -200 percent on A
  adjust to -50 and 50, the total 0 is replaced by 1, and the output weights are -5000 and 5000.\<close>

theorem apply_instrument_deltas_negative_delta:
  "apply_instrument_deltas negative_table [(''A'', -200)] =
     Inr \<lparr>nrows = 1, cols = [(''Client Type'', [Str ''Balanced'']),
       (''A_final'', [Num (-5000)]), (''B_final'', [Num 5000])]\<rparr>"
  by (simp add: negative_table_def delta_eval_simps)

lemma staged_frame_no_client:
  "''Client Type'' \<notin> set (frame_columns df) \<Longrightarrow>
     ''Client Type'' \<notin> set (frame_columns (staged_frame deltas df))"
  by (auto simp: staged_frame_columns)

text \<open>C7. A table without a \<open>Client Type\<close> column passes validation and both loops, and the function raises \<open>KeyError\<close> at the final selection.\<close>

theorem apply_instrument_deltas_no_client_type:
  assumes "table_ok df deltas" and "''Client Type'' \<notin> set (frame_columns df)"
  shows "apply_instrument_deltas df deltas = Inl (KeyError ''Client Type'')"
proof -
  have "map_of (cols (staged_frame deltas df)) ''Client Type'' = None"
    using staged_frame_no_client [OF assms(2)] by (simp add: map_of_eq_None_iff frame_columns_def)
  then show ?thesis
    by (simp add: apply_instrument_deltas_staged [OF assms(1)] frame_select_def frame_getitem_def)
qed

theorem apply_instrument_deltas_no_client_type_witness:
  "table_ok \<lparr>nrows = 1, cols = [(''A'', [Num 100])]\<rparr> [] \<and>
   ''Client Type'' \<notin> set (frame_columns \<lparr>nrows = 1, cols = [(''A'', [Num 100])]\<rparr>) \<and>
   apply_instrument_deltas \<lparr>nrows = 1, cols = [(''A'', [Num 100])]\<rparr> [] = Inl (KeyError ''Client Type'')"
proof -
  have ok: "table_ok \<lparr>nrows = 1, cols = [(''A'', [Num 100])]\<rparr> []" by (simp add: table_eval_simps)
  have ct: "''Client Type'' \<notin> set (frame_columns \<lparr>nrows = 1, cols = [(''A'', [Num 100])]\<rparr>)"
    by (simp add: frame_columns_def)
  show ?thesis using ok ct apply_instrument_deltas_no_client_type [OF ok ct] by simp
qed

end
