(* ===== verification/Scraper.thy ===== *)
theory Scraper
  imports JsonDump
begin

text \<open>
  The page scraper of \<open>src/scrap.py\<close>. \<open>scrape_theory_content\<close> starts a headless
  browser, loads a page, derives a parent and a topic from the URL path, reads the text
  of the \<open>div.body.ng-scope\<close> element, collapses its whitespace, collects the image
  URLs of that element, writes the result dictionary to \<open>scraped_theory.json\<close>, prints
  status lines and returns the dictionary.  The browser is a parameter (\<open>browser\<close>):
  whether it starts, the page state after the awaited calls inside the \<open>try\<close>, and
  whether the console takes the status lines; the two scripts the code evaluates in the
  page are modelled on that state (\<open>js_theory_text\<close>, \<open>extract_image_urls\<close>).  The
  result is \<open>Inl\<close> for the exception of lines 9--10, which propagates, and
  \<open>Inr None\<close> for an exception caught at line 126.  JavaScript's \<open>null\<close> and
  \<open>''\<close> are both falsy and both modelled as the empty string, since the code only
  tests them for truth.
\<close>

subsection \<open>Parent and topic from the URL (lines 27--48)\<close>

definition url_parts :: "string \<Rightarrow> string list" where
  "url_parts u = filter (\<lambda>part. part \<noteq> []) (py_split_char (py_rstrip_chars u ''/'') CHR ''/'')"

definition skip_part :: "string \<Rightarrow> bool" where
  "skip_part part \<longleftrightarrow>
     py_in ''http'' part \<or> py_in ''.'' part \<or> part \<in> set [''lektioner'', ''gymnasiet'', ''matte-niva-2'']"

definition clean_part :: "string \<Rightarrow> string" where
  "clean_part part = py_strip (py_replace (py_replace part ''#!/'' '''') ''-'' '' '')"

text \<open>The \<open>for\<close> loop with its two accumulators; setting the topic breaks out.\<close>

fun find_parent_topic ::
  "string list \<Rightarrow> string option \<Rightarrow> string option \<Rightarrow> string option \<times> string option" where
  "find_parent_topic [] parent topic = (parent, topic)"
| "find_parent_topic (part # parts) parent topic =
     (if skip_part part then find_parent_topic parts parent topic
      else (let cleaned = clean_part part in
        if cleaned \<noteq> [] then
          (if parent = None then find_parent_topic parts (Some cleaned) topic
           else if topic = None then (parent, Some cleaned)
           else find_parent_topic parts parent topic)
        else find_parent_topic parts parent topic))"

definition parent_topic :: "string \<Rightarrow> string option \<times> string option" where
  "parent_topic u = find_parent_topic (url_parts u) None None"

subsection \<open>Theory text (lines 60--78)\<close>

record img =
  src_prop :: string
  data_src :: string

record body_div =
  inner_text :: string
  text_content :: string
  images :: "img list"

record page =
  body :: "body_div option"
  origin :: string

definition js_theory_text :: "page \<Rightarrow> string" where
  "js_theory_text pg =
     (case body pg of None \<Rightarrow> []
      | Some b \<Rightarrow> (if inner_text b \<noteq> [] then inner_text b else text_content b))"

definition clean_content :: "string \<Rightarrow> string" where
  "clean_content s =
     (if s \<noteq> []
      then py_strip (sub_run SP 2 [SP] (sub_run TAB 1 [SP] (sub_run NL 3 [NL, NL] s)))
      else ''None'')"

subsection \<open>Image URLs (lines 81--102)\<close>

definition js_src :: "img \<Rightarrow> string" where
  "js_src im = (if src_prop im \<noteq> [] then src_prop im else data_src im)"

definition normalize_src :: "string \<Rightarrow> string \<Rightarrow> string" where
  "normalize_src orig src =
     (if py_startswith src ''/'' then orig @ src
      else if \<not> py_startswith src ''http'' then orig @ ''/'' @ src
      else src)"

fun collect_srcs :: "string \<Rightarrow> img list \<Rightarrow> string list" where
  "collect_srcs orig [] = []"
| "collect_srcs orig (im # ims) =
     (let src = js_src im in
      if src \<noteq> [] then normalize_src orig src # collect_srcs orig ims
      else collect_srcs orig ims)"

text \<open>\<open>[...new Set(urls)]\<close>: a set remembers insertion order and ignores a repeated add.\<close>

fun js_set_add :: "string list \<Rightarrow> string list \<Rightarrow> string list" where
  "js_set_add acc [] = acc"
| "js_set_add acc (x # xs) = js_set_add (if x \<in> set acc then acc else acc @ [x]) xs"

definition js_set_spread :: "string list \<Rightarrow> string list" where
  "js_set_spread xs = js_set_add [] xs"

definition extract_image_urls :: "page \<Rightarrow> string list" where
  "extract_image_urls pg =
     (case body pg of None \<Rightarrow> []
      | Some b \<Rightarrow> js_set_spread (collect_srcs (origin pg) (images b)))"

subsection \<open>The result dictionary (lines 25--111)\<close>

record scrape_result =
  url :: string
  parent :: "string option"
  topic :: "string option"
  content :: string
  image_urls :: "string list"

text \<open>The dictionary the code builds from a loaded page: the URL loop, the two scripts
  evaluated in the page, and the final strip of line 109.\<close>

definition page_result :: "string \<Rightarrow> page \<Rightarrow> scrape_result" where
  "page_result u pg =
     (let (par, top) = parent_topic u;
          theory_content = clean_content (js_theory_text pg);
          urls = extract_image_urls pg
      in \<lparr>url = u, parent = par, topic = top, content = py_strip theory_content,
          image_urls = urls\<rparr>)"

definition main_url :: string where
  "main_url = ''https://www.matteboken.se/lektioner/gymnasiet/matte-niva-2/algebra/polynom#!/''"

subsection \<open>The JSON file (lines 113--115)\<close>

text \<open>
  The file system is a map from paths to file contents; \<open>json.dump\<close> into the file
  opened with \<open>'w'\<close> replaces its contents by the dump of the result dict, whose keys
  are in the order of the dict literal and where \<open>None\<close> becomes \<open>null\<close>.
  Failures of the file system are not modelled.
\<close>

type_synonym files = "string \<Rightarrow> string option"

definition scraped_file :: string where
  "scraped_file = ''scraped_theory.json''"

definition opt_json :: "string option \<Rightarrow> json" where
  "opt_json v = (case v of None \<Rightarrow> JNull | Some s \<Rightarrow> JStr s)"

definition result_json :: "scrape_result \<Rightarrow> json" where
  "result_json r =
     JObj [(''url'', JStr (url r)), (''parent'', opt_json (parent r)), (''topic'', opt_json (topic r)),
           (''content'', JStr (content r)), (''image_urls'', JArr (map JStr (image_urls r)))]"

subsection \<open>The scraper (lines 6--133)\<close>

text \<open>
  The environment of one call.  \<open>launch\<close> is the outcome of \<open>p.chromium.launch\<close> and
  \<open>browser.new_page\<close> (lines 9--10): they run before the \<open>try\<close>, so their exception
  leaves the function.  \<open>load\<close> is the page state after the awaited calls inside the
  \<open>try\<close> (navigation, the MathJax waits and typesetting, the two page scripts), or
  \<open>None\<close> when one of them raises; an exception of the click on the theory tab is
  swallowed at lines 56--57, so the state is the one after the click or without it.  \<open>stdout_ok\<close> says whether the console
  encodes the status lines of lines 117--122 (each starts with the check mark U+2713);
  when it does not, the first \<open>print\<close> raises \<open>UnicodeEncodeError\<close>.  Both
  exceptions inside the \<open>try\<close> are caught at line 126 and the function returns
  \<open>None\<close>; the text printed is not modelled, nor is a failure of \<open>browser.close\<close>
  in the \<open>finally\<close>.
\<close>

record browser =
  launch :: "unit result"
  load :: "string \<Rightarrow> page option"
  stdout_ok :: bool

definition scrape_theory_content :: "browser \<Rightarrow> string \<Rightarrow> files \<Rightarrow> files \<times> scrape_result option result" where
  "scrape_theory_content br u fs =
     (case launch br of
        Inl e \<Rightarrow> (fs, Inl e)
      | Inr _ \<Rightarrow>
          (case load br u of
             None \<Rightarrow> (fs, Inr None)
           | Some pg \<Rightarrow>
               (let result = page_result u pg;
                    fs' = fs(scraped_file \<mapsto> json_dumps (result_json result))
                in if stdout_ok br then (fs', Inr (Some result)) else (fs', Inr None))))"

subsection \<open>Reference and test data\<close>

text \<open>
  The candidates of the URL loop: the parts not skipped, cleaned, and non-empty after
  cleaning. The loop's parent and topic are the first two of them.
\<close>

definition topic_candidates :: "string list \<Rightarrow> string list" where
  "topic_candidates parts = filter (\<lambda>c. c \<noteq> []) (map clean_part (filter (\<lambda>x. \<not> skip_part x) parts))"

definition example_page :: page where
  "example_page =
     \<lparr>body = Some \<lparr>inner_text = '' Polynom'' @ [NL, NL, NL, NL] @ ''Ett'' @ [TAB, TAB] @ ''polynom  har termer. '',
        text_content = [],
        images = [\<lparr>src_prop = ''https://www.matteboken.se/img/a.png'', data_src = []\<rparr>,
                  \<lparr>src_prop = [], data_src = ''/img/b.png''\<rparr>,
                  \<lparr>src_prop = [], data_src = ''img/c.png''\<rparr>,
                  \<lparr>src_prop = ''https://www.matteboken.se/img/a.png'', data_src = []\<rparr>,
                  \<lparr>src_prop = [], data_src = []\<rparr>]\<rparr>,
      origin = ''https://www.matteboken.se''\<rparr>"

definition example_result :: scrape_result where
  "example_result =
     \<lparr>url = main_url, parent = Some ''algebra'', topic = Some ''polynom#!'',
      content = ''Polynom'' @ [NL, NL] @ ''Ett polynom har termer.'',
      image_urls = [''https://www.matteboken.se/img/a.png'', ''https://www.matteboken.se/img/b.png'',
                    ''https://www.matteboken.se/img/c.png'']\<rparr>"

definition example_browser :: browser where
  "example_browser = \<lparr>launch = Inr (), load = \<lambda>_. Some example_page, stdout_ok = True\<rparr>"

definition blank_page :: page where
  "blank_page =
     \<lparr>body = Some \<lparr>inner_text = [SP, NL, TAB, NL], text_content = [], images = []\<rparr>,
      origin = ''https://www.matteboken.se''\<rparr>"

definition cdn_page :: page where
  "cdn_page =
     \<lparr>body = Some \<lparr>inner_text = ''Teori'', text_content = [],
        images = [\<lparr>src_prop = [], data_src = ''//cdn.example.com/f.png''\<rparr>]\<rparr>,
      origin = ''https://www.matteboken.se''\<rparr>"

subsection \<open>Lemmas\<close>

lemma remdups_append_mem: "x \<in> set zs \<Longrightarrow> remdups (ys @ x # zs) = remdups (ys @ zs)"
  by (metis remdups.simps(2) remdups_append2)

lemma js_set_add_remdups:
  "distinct acc \<Longrightarrow> js_set_add acc xs = rev (remdups (rev (acc @ xs)))"
proof (induction xs arbitrary: acc)
  case Nil
  then show ?case by (simp add: distinct_remdups_id)
next
  case (Cons x xs)
  show ?case
  proof (cases "x \<in> set acc")
    case True
    then have "remdups (rev xs @ x # rev acc) = remdups (rev xs @ rev acc)"
      by (simp add: remdups_append_mem)
    with True Cons show ?thesis by simp
  next
    case False
    with Cons show ?thesis by simp
  qed
qed

lemma url_parts_no_slash: "part \<in> set (url_parts u) \<Longrightarrow> CHR ''/'' \<notin> set part"
  unfolding url_parts_def by (auto dest: py_split_char_sep_free)

lemma clean_part_no_hash: "CHR ''/'' \<notin> set part \<Longrightarrow> py_replace part ''#!/'' '''' = part"
  by (rule py_replace_char_absent) simp_all

lemma find_parent_topic_first:
  "find_parent_topic parts (Some p) None =
     (Some p, (case filter (\<lambda>c. c \<noteq> []) (map clean_part (filter (\<lambda>x. \<not> skip_part x) parts)) of
                [] \<Rightarrow> None | c # _ \<Rightarrow> Some c))"
  by (induction parts) (auto simp: Let_def)

lemma sublist_singleton_iff: "sublist [x] w \<longleftrightarrow> x \<in> set w"
  by (induction w) (auto simp: sublist_Cons_right)

lemma clean_steps_no_tab:
  "TAB \<notin> set (sub_run SP 2 [SP] (sub_run TAB 1 [SP] t))"
proof -
  have "TAB \<notin> set (sub_run TAB (Suc 0) [SP] t)" by (rule sub_run_no_char) simp
  then have "\<not> sublist (replicate 1 TAB) (sub_run TAB 1 [SP] t)"
    by (simp add: sublist_singleton_iff)
  then have "\<not> sublist (replicate 1 TAB) (sub_run SP 2 [SP] (sub_run TAB 1 [SP] t))"
    by (subst sublist_replicate_sub_run) simp_all
  then show ?thesis by (simp add: sublist_singleton_iff)
qed

lemma clean_steps_no_double_space:
  "\<not> sublist (replicate 2 SP) (sub_run SP 2 [SP] t)"
  by (rule sub_run_no_long_run [of _ 1]) simp_all

lemma clean_steps_no_triple_newline:
  "\<not> sublist (replicate 3 NL) (sub_run SP 2 [SP] (sub_run TAB 1 [SP] (sub_run NL 3 [NL, NL] s)))"
proof -
  have "\<not> sublist (replicate 3 NL) (sub_run NL 3 [NL, NL] s)"
    by (rule sub_run_no_long_run [of _ 2]) (simp_all add: numeral_2_eq_2)
  then have "\<not> sublist (replicate 3 NL) (sub_run TAB 1 [SP] (sub_run NL 3 [NL, NL] s))"
    by (subst sublist_replicate_sub_run) simp_all
  then show ?thesis
    by (subst sublist_replicate_sub_run) simp_all
qed

lemma clean_content_props:
  "TAB \<notin> set (clean_content s) \<and> \<not> sublist (replicate 2 SP) (clean_content s) \<and>
   \<not> sublist (replicate 3 NL) (clean_content s) \<and> py_strip (clean_content s) = clean_content s"
proof (cases "s = []")
  case True
  then show ?thesis
    by (simp add: clean_content_def py_strip_def py_lstrip_def py_rstrip_def py_isspace_def
        numeral_2_eq_2 numeral_3_eq_3 sublist_Cons_right)
next
  case False
  let ?t = "sub_run SP 2 [SP] (sub_run TAB 1 [SP] (sub_run NL 3 [NL, NL] s))"
  have c: "clean_content s = py_strip ?t" using False by (simp add: clean_content_def)
  have "set (py_strip ?t) \<subseteq> set ?t" by (rule set_mono_sublist [OF sublist_py_strip])
  then have "TAB \<notin> set (py_strip ?t)" using clean_steps_no_tab by blast
  moreover have "\<not> sublist (replicate 2 SP) (py_strip ?t)"
    by (rule sublist_no_run [OF clean_steps_no_double_space sublist_py_strip])
  moreover have "\<not> sublist (replicate 3 NL) (py_strip ?t)"
    by (rule sublist_no_run [OF clean_steps_no_triple_newline sublist_py_strip])
  ultimately show ?thesis by (simp add: c py_strip_idem)
qed

lemma clean_content_space_only:
  "s \<noteq> [] \<Longrightarrow> \<forall>ch \<in> set s. py_isspace ch \<Longrightarrow> clean_content s = []"
proof -
  assume ne: "s \<noteq> []" and sp: "\<forall>ch \<in> set s. py_isspace ch"
  let ?s1 = "sub_run NL 3 [NL, NL] s"
  let ?s2 = "sub_run TAB 1 [SP] ?s1"
  have "set ?s1 \<subseteq> set s \<union> set [NL, NL]" by (rule sub_run_set)
  with sp have s1: "\<forall>ch \<in> set ?s1. py_isspace ch" by (auto simp: py_isspace_def)
  have "set ?s2 \<subseteq> set ?s1 \<union> set [SP]" by (rule sub_run_set)
  with s1 have s2: "\<forall>ch \<in> set ?s2. py_isspace ch" by (auto simp: py_isspace_def)
  have "set (sub_run SP 2 [SP] ?s2) \<subseteq> set ?s2 \<union> set [SP]" by (rule sub_run_set)
  with s2 have "\<forall>ch \<in> set (sub_run SP 2 [SP] ?s2). py_isspace ch" by (auto simp: py_isspace_def)
  with ne show ?thesis by (simp add: clean_content_def py_strip_all_space)
qed

lemma find_parent_topic_start:
  "find_parent_topic parts None None =
     (case topic_candidates parts of
        [] \<Rightarrow> (None, None) | [p] \<Rightarrow> (Some p, None) | p # t # _ \<Rightarrow> (Some p, Some t))"
  by (induction parts)
     (auto simp: Let_def topic_candidates_def find_parent_topic_first split: list.splits)

lemma page_result_eq:
  "page_result u pg =
     \<lparr>url = u, parent = fst (parent_topic u), topic = snd (parent_topic u),
      content = clean_content (js_theory_text pg), image_urls = extract_image_urls pg\<rparr>"
  using clean_content_props [of "js_theory_text pg"]
  by (simp add: page_result_def split_def Let_def)

lemma scrape_theory_content_returns:
  assumes "snd (scrape_theory_content br u fs) = Inr (Some r)"
  obtains pg where "load br u = Some pg" and "r = page_result u pg"
  using assms by (auto simp: scrape_theory_content_def Let_def split: sum.splits option.splits if_splits)

lemma scrape_theory_content_loaded:
  assumes "launch br = Inr x" and "load br u = Some pg"
  shows "scrape_theory_content br u fs =
           (fs(scraped_file \<mapsto> json_dumps (result_json (page_result u pg))),
            Inr (if stdout_ok br then Some (page_result u pg) else None))"
  using assms by (simp add: scrape_theory_content_def Let_def)

lemma parent_topic_main_url: "parent_topic main_url = (Some ''algebra'', Some ''polynom#!'')"
  by (simp add: parent_topic_def main_url_def url_parts_def py_rstrip_chars_def skip_part_def
      clean_part_def py_replace_def py_strip_def py_lstrip_def py_rstrip_def py_isspace_def
      py_startswith_def)

lemmas scrape_eval_simps = page_result_def parent_topic_def url_parts_def py_rstrip_chars_def
  skip_part_def clean_part_def py_replace_def py_strip_def py_lstrip_def py_rstrip_def py_isspace_def
  py_startswith_def js_theory_text_def clean_content_def sub_run.simps extract_image_urls_def
  js_set_spread_def js_src_def normalize_src_def Let_def

lemma page_result_example: "page_result main_url example_page = example_result"
  by (simp add: scrape_eval_simps example_page_def example_result_def main_url_def)

lemma scrape_theory_content_example:
  "scrape_theory_content example_browser main_url fs =
     (fs(scraped_file \<mapsto> json_dumps (result_json example_result)), Inr (Some example_result))"
  by (simp add: scrape_theory_content_loaded example_browser_def page_result_example)

section \<open>Properties of the scraper\<close>

text \<open>C15. The content of every scraped page holds no tab, no two consecutive spaces, no
  three consecutive newlines, and has no white space at either end.\<close>

theorem scrape_content_clean:
  assumes "snd (scrape_theory_content br u fs) = Inr (Some r)"
  shows "TAB \<notin> set (content r) \<and> \<not> sublist (replicate 2 SP) (content r) \<and>
         \<not> sublist (replicate 3 NL) (content r) \<and> py_strip (content r) = content r"
proof -
  from assms obtain pg where "r = page_result u pg"
    by (rule scrape_theory_content_returns)
  then have "content r = clean_content (js_theory_text pg)" by (simp add: page_result_eq)
  then show ?thesis using clean_content_props by simp
qed

theorem scrape_content_clean_witness:
  "snd (scrape_theory_content example_browser main_url Map.empty) = Inr (Some example_result) \<and>
   TAB \<notin> set (content example_result) \<and> \<not> sublist (replicate 2 SP) (content example_result) \<and>
   \<not> sublist (replicate 3 NL) (content example_result) \<and>
   py_strip (content example_result) = content example_result"
proof -
  have r: "snd (scrape_theory_content example_browser main_url Map.empty) = Inr (Some example_result)"
    by (simp add: scrape_theory_content_example)
  show ?thesis using r scrape_content_clean [OF r] by simp
qed

text \<open>C16. A page whose theory text is non-empty but all white space yields the empty
  content, not the placeholder \<open>'None'\<close> that the code stores for a missing text.\<close>

theorem scrape_blank_content:
  assumes "launch br = Inr ()" and "stdout_ok br" and "load br u = Some pg"
    and "js_theory_text pg \<noteq> []" and "\<forall>ch \<in> set (js_theory_text pg). py_isspace ch"
  shows "\<exists>r. snd (scrape_theory_content br u fs) = Inr (Some r) \<and> content r = []"
  using assms by (simp add: scrape_theory_content_loaded page_result_eq clean_content_space_only)

theorem scrape_blank_content_witness:
  "js_theory_text blank_page \<noteq> [] \<and>
   (\<exists>r. snd (scrape_theory_content (example_browser\<lparr>load := \<lambda>_. Some blank_page\<rparr>) main_url Map.empty) =
          Inr (Some r) \<and> content r = [])"
proof -
  have t: "js_theory_text blank_page = [SP, NL, TAB, NL]" by (simp add: js_theory_text_def blank_page_def)
  have s: "\<forall>ch \<in> set (js_theory_text blank_page). py_isspace ch" by (simp add: t py_isspace_def)
  have l: "launch (example_browser\<lparr>load := \<lambda>_. Some blank_page\<rparr>) = Inr ()"
    and o: "stdout_ok (example_browser\<lparr>load := \<lambda>_. Some blank_page\<rparr>)"
    by (simp_all add: example_browser_def)
  show ?thesis
    using scrape_blank_content [OF l o, of main_url blank_page Map.empty] s t by simp
qed

text \<open>C18. The URL loop computes the first two non-empty cleaned parts of the URL path that
  are not skipped: the first is the parent, the second the topic.\<close>

theorem parent_topic_refines:
  "parent_topic u =
     (case topic_candidates (url_parts u) of
        [] \<Rightarrow> (None, None) | [p] \<Rightarrow> (Some p, None) | p # t # _ \<Rightarrow> (Some p, Some t))"
  by (simp add: parent_topic_def find_parent_topic_start)

text \<open>C19. The replacement of \<open>'#!/'\<close> never changes a part of the URL: a part comes from
  splitting at \<open>'/'\<close> and holds no slash, so cleaning only replaces hyphens and strips.\<close>

theorem url_part_hash_replace_dead:
  assumes "part \<in> set (url_parts u)"
  shows "clean_part part = py_strip (py_replace part ''-'' '' '')"
  using clean_part_no_hash [OF url_parts_no_slash [OF assms]] by (simp add: clean_part_def)

theorem url_part_hash_replace_dead_witness:
  "''polynom#!'' \<in> set (url_parts main_url) \<and> clean_part ''polynom#!'' = ''polynom#!''"
proof -
  have m: "''polynom#!'' \<in> set (url_parts main_url)"
    by (simp add: main_url_def url_parts_def py_rstrip_chars_def)
  show ?thesis using m url_part_hash_replace_dead [OF m]
    by (simp add: py_replace_def py_strip_def py_lstrip_def py_rstrip_def py_isspace_def py_startswith_def)
qed

text \<open>C20. When the page origin is an http(s) origin, every image URL the scraper returns
  starts with \<open>http\<close>.\<close>

theorem extract_image_urls_http:
  assumes "py_startswith (origin pg) ''http''" and "v \<in> set (extract_image_urls pg)"
  shows "py_startswith v ''http''"
proof -
  have "\<forall>v \<in> set (collect_srcs (origin pg) ims). py_startswith v ''http''" for ims
    using assms(1) by (induction ims) (auto simp: Let_def normalize_src_def py_startswith_iff_prefix)
  moreover have "set (extract_image_urls pg) \<subseteq> set (collect_srcs (origin pg) (images b))"
    if "body pg = Some b" for b
    using that by (simp add: extract_image_urls_def js_set_spread_def js_set_add_remdups)
  ultimately show ?thesis using assms(2)
    by (cases "body pg") (auto simp: extract_image_urls_def)
qed

theorem extract_image_urls_http_witness:
  "py_startswith (origin example_page) ''http'' \<and>
   ''https://www.matteboken.se/img/c.png'' \<in> set (extract_image_urls example_page) \<and>
   py_startswith ''https://www.matteboken.se/img/c.png'' ''http''"
proof -
  have o: "py_startswith (origin example_page) ''http''"
    by (simp add: example_page_def py_startswith_def)
  have m: "''https://www.matteboken.se/img/c.png'' \<in> set (extract_image_urls example_page)"
    by (simp add: scrape_eval_simps example_page_def)
  show ?thesis using o m extract_image_urls_http [OF o m] by simp
qed

text \<open>Two computations behind the findings on the scraper: on the URL of \<open>main\<close>,
  whose comment gives the format \<open>.../algebra/polynom#!/\<close>, the topic is
  \<open>polynom#!\<close> (the \<open>'#!/'\<close> it was meant to remove was cut at its slash by the
  split); and a protocol-relative lazy-loading source is appended to the page origin.\<close>

lemma scrape_main_url_topic:
  "parent (page_result main_url pg) = Some ''algebra'' \<and> topic (page_result main_url pg) = Some ''polynom#!''"
  by (simp add: page_result_eq parent_topic_main_url)

lemma extract_image_urls_protocol_relative:
  "extract_image_urls cdn_page = [''https://www.matteboken.se//cdn.example.com/f.png'']"
  by (simp add: scrape_eval_simps cdn_page_def)

text \<open>C17. The file is written before the status lines are printed: whenever the browser
  started and the page loaded, \<open>scraped_theory.json\<close> is replaced by the dump of the
  page's dict, which \<open>json.load\<close> reads back as that dict, and no other file changes;
  the call returns the dict when the status prints succeed and \<open>None\<close> when one of
  them raises, with the file already written.\<close>

theorem scrape_file_written:
  assumes "launch br = Inr ()" and "load br u = Some pg"
  shows "Option.bind (fst (scrape_theory_content br u fs) scraped_file) json_loads =
           Some (result_json (page_result u pg)) \<and>
         (\<forall>f. f \<noteq> scraped_file \<longrightarrow> fst (scrape_theory_content br u fs) f = fs f) \<and>
         snd (scrape_theory_content br u fs) = Inr (if stdout_ok br then Some (page_result u pg) else None)"
  using assms by (simp add: scrape_theory_content_loaded json_loads_dumps)

theorem scrape_file_written_witness:
  "Option.bind (fst (scrape_theory_content (example_browser\<lparr>stdout_ok := False\<rparr>) main_url Map.empty)
       scraped_file) json_loads = Some (result_json example_result) \<and>
   fst (scrape_theory_content (example_browser\<lparr>stdout_ok := False\<rparr>) main_url Map.empty) ''other.json'' = None \<and>
   snd (scrape_theory_content (example_browser\<lparr>stdout_ok := False\<rparr>) main_url Map.empty) = Inr None"
proof -
  have l: "launch (example_browser\<lparr>stdout_ok := False\<rparr>) = Inr ()"
    and p: "load (example_browser\<lparr>stdout_ok := False\<rparr>) main_url = Some example_page"
    by (simp_all add: example_browser_def)
  have "''other.json'' \<noteq> scraped_file" by (simp add: scraped_file_def)
  then show ?thesis
    using scrape_file_written [OF l p, of Map.empty] by (simp add: page_result_example example_browser_def)
qed

end
