(* ===== verification/Embeddings.thy ===== *)
theory Embeddings
  imports Prelude
begin

text \<open>
  The Hugging Face embedding wrapper of
  \<open>src/intfloat-multilingual-e5-large-instruct-huggingface-embeddingmodel-wrapupinlangchain.py\<close>.
  \<open>HFInferenceEmbeddings.embed_query\<close> posts one request to the inference endpoint,
  raises on an HTTP error status (\<open>requests.Response.raise_for_status\<close>) and converts
  the JSON body with numpy; \<open>embed_documents\<close> is a comprehension over
  \<open>embed_query\<close>.  The endpoint and the numpy conversion are the fields of the
  interface record \<open>hf_server\<close>; the wrapper threads the log of the requests it
  sent, in order, so that the theorems can say which requests a failing run made.
  The module itself never gets that far: line 8 reads the global \<open>HF_TOKEN\<close>,
  which no statement binds.
\<close>

subsection \<open>Requests, responses and the server\<close>

record hf_request =
  inputs :: string
  wait_for_model :: bool

record 'j http_response =
  status_code :: nat
  resp_json :: 'j

record ('j, 'v) hf_server =
  post :: "hf_request \<Rightarrow> 'j http_response"
  to_vector :: "'j \<Rightarrow> 'v result"

text \<open>\<open>raise_for_status\<close>: a client error (400--499) or a server error (500--599) raises.\<close>

definition raise_for_status :: "'j http_response \<Rightarrow> unit result" where
  "raise_for_status resp =
     (let code = status_code resp in
      if 400 \<le> code \<and> code < 500 then Inl (HTTPError code)
      else if 500 \<le> code \<and> code < 600 then Inl (HTTPError code)
      else Inr ())"

subsection \<open>The wrapper (lines 12--19)\<close>

definition embed_query ::
  "('j, 'v) hf_server \<Rightarrow> string \<Rightarrow> hf_request list \<Rightarrow> hf_request list \<times> 'v result" where
  "embed_query srv text log =
     (let req = \<lparr>inputs = text, wait_for_model = True\<rparr>;
          response = post srv req
      in (log @ [req], bind_res (raise_for_status response) (\<lambda>_. to_vector srv (resp_json response))))"

fun embed_documents ::
  "('j, 'v) hf_server \<Rightarrow> string list \<Rightarrow> hf_request list \<Rightarrow> hf_request list \<times> 'v list result" where
  "embed_documents srv [] log = (log, Inr [])"
| "embed_documents srv (t # ts) log =
     (case embed_query srv t log of
        (log1, Inl e) \<Rightarrow> (log1, Inl e)
      | (log1, Inr v) \<Rightarrow>
          (case embed_documents srv ts log1 of
             (log2, Inl e) \<Rightarrow> (log2, Inl e)
           | (log2, Inr vs) \<Rightarrow> (log2, Inr (v # vs))))"

subsection \<open>The module script (lines 1--27)\<close>

text \<open>
  The module's global names when line 8 runs: the four imports. Reading a name that
  is not bound raises \<open>NameError\<close>.
\<close>

definition module_globals :: "string list" where
  "module_globals = [''os'', ''requests'', ''np'', ''Embeddings'']"

definition read_global :: "string list \<Rightarrow> string \<Rightarrow> unit result" where
  "read_global g name = (if name \<in> set g then Inr () else Inl (NameError name))"

definition test_text :: string where
  "test_text =
     ''I det h'' @
     [CHR 0xE4] @
     ''r kapitlet kommer vi att studera polynom av olika gradtal och vilka r'' @
     [CHR 0xE4] @
     ''kneregler som g'' @
     [CHR 0xE4] @
     ''ller n'' @
     [CHR 0xE4] @
     ''r vi multiplicerar polynom. Vi l'' @
     [CHR 0xE4] @
     ''r oss de tv'' @
     [CHR 0xE5] @
     '' kvadreringsreglerna och konjugatregeln, som vi har anv'' @
     [CHR 0xE4] @
     ''ndning f'' @
     [CHR 0xF6] @
     ''r n'' @
     [CHR 0xE4] @
     ''r vi vill faktorisera ett polynom.''"

definition embedding_script ::
  "('j, 'v) hf_server \<Rightarrow> hf_request list \<times> 'v result" where
  "embedding_script srv =
     (case read_global module_globals ''HF_TOKEN'' of
        Inl e \<Rightarrow> ([], Inl e)
      | Inr _ \<Rightarrow> embed_query srv test_text [])"

text \<open>The request that \<open>embed_query\<close> sends for a text, and its result without the log.\<close>

definition query_request :: "string \<Rightarrow> hf_request" where
  "query_request text = \<lparr>inputs = text, wait_for_model = True\<rparr>"

definition query_result :: "('j, 'v) hf_server \<Rightarrow> string \<Rightarrow> 'v result" where
  "query_result srv text = snd (embed_query srv text [])"

definition fail_server :: "(nat, nat) hf_server" where
  "fail_server =
     \<lparr>post = (\<lambda>req. \<lparr>status_code = (if inputs req = ''b'' then 503 else 200), resp_json = length (inputs req)\<rparr>),
      to_vector = (\<lambda>n. Inr n)\<rparr>"

subsection \<open>Lemmas\<close>

lemma raise_for_status_Inl:
  "raise_for_status resp = Inl e \<longleftrightarrow> 400 \<le> status_code resp \<and> status_code resp < 600 \<and> e = HTTPError (status_code resp)"
  by (auto simp: raise_for_status_def Let_def)

lemma raise_for_status_Inr:
  "raise_for_status resp = Inr u \<longleftrightarrow> \<not> (400 \<le> status_code resp \<and> status_code resp < 600)"
  by (auto simp: raise_for_status_def Let_def)

lemma embed_query_log: "fst (embed_query srv text log) = log @ [query_request text]"
  by (simp add: embed_query_def query_request_def Let_def)

lemma embed_query_result: "snd (embed_query srv text log) = query_result srv text"
  by (simp add: query_result_def embed_query_def Let_def)

lemma embed_query_eq:
  "embed_query srv text log = (log @ [query_request text], query_result srv text)"
  by (metis embed_query_log embed_query_result prod.collapse)

lemma embed_documents_stops_example:
  "embed_documents fail_server [''a'', ''b'', ''c''] [] =
     ([query_request ''a'', query_request ''b''], Inl (HTTPError 503))"
  by (simp add: embed_query_def fail_server_def query_request_def raise_for_status_def)

section \<open>Properties of the embedding wrapper\<close>

text \<open>C21. \<open>embed_documents\<close> sends one request per text, in the order of the texts, each
  with \<open>wait_for_model\<close> set, up to and including the first failing one, and none after it.\<close>

theorem embed_documents_requests:
  "fst (embed_documents srv ts log) =
     log @ map query_request (take (Suc (length (takeWhile (\<lambda>t. \<not> isl (query_result srv t)) ts))) ts)"
proof (induction ts arbitrary: log)
  case (Cons t ts)
  show ?case
  proof (cases "query_result srv t")
    case (Inl e)
    then show ?thesis by (simp add: embed_query_eq)
  next
    case (Inr v)
    obtain log2 r where ed: "embed_documents srv ts (log @ [query_request t]) = (log2, r)"
      by fastforce
    have "log2 = log @ [query_request t] @
        map query_request (take (Suc (length (takeWhile (\<lambda>t. \<not> isl (query_result srv t)) ts))) ts)"
      using Cons.IH [of "log @ [query_request t]"] ed by simp
    then show ?thesis using Inr ed by (cases r) (simp_all add: embed_query_eq)
  qed
qed simp

text \<open>C22. One query: an HTTP status from 400 to 599 raises \<open>HTTPError\<close> with that status
  before the body is read; any other status returns the numpy conversion of the JSON body.\<close>

theorem query_result_status:
  "query_result srv text =
     (let resp = post srv (query_request text) in
      if 400 \<le> status_code resp \<and> status_code resp < 600 then Inl (HTTPError (status_code resp))
      else to_vector srv (resp_json resp))"
  by (auto simp: query_result_def embed_query_def query_request_def raise_for_status_def Let_def)

text \<open>The computation behind the finding on the script: the module raises \<open>NameError\<close> for \<open>HF_TOKEN\<close> at line 8, before it defines the
  class: whatever the server, the test embedding is never requested.\<close>

lemma embedding_script_name_error:
  "embedding_script srv = ([], Inl (NameError ''HF_TOKEN''))"
  by (simp add: embedding_script_def read_global_def module_globals_def)

end
