(* ===== verification/TavilySearch.thy ===== *)
theory TavilySearch
  imports PyStr
begin

text \<open>
  The travel search script \<open>src/travilySearch.py\<close>. It stores an API key in the
  process environment, configures a \<open>TavilySearchAPIRetriever\<close> (result count
  \<open>k\<close>, search depth, images, and a list of domains the search is restricted to) and
  invokes it on one query.  The configuration is the record \<open>tavily_config\<close> (the
  field \<open>k\<close> is \<open>tavily_k\<close>, to keep \<open>k\<close> free as a variable name); the
  environment is a map; the search service is a parameter that receives the key the
  retriever reads from the environment at invocation, the configuration and the query.
  A domain of the configuration is checked against the host-name syntax of RFC 1123
  (dot-separated labels of 1 to 63 letters, digits and hyphens, not starting or ending
  with a hyphen, at most 253 characters), which the search service expects.
\<close>

record tavily_config =
  tavily_k :: nat
  search_depth :: string
  include_images :: bool
  include_domains :: "string list"

type_synonym environ = "string \<Rightarrow> string option"

definition tavily_api_key :: string where
  "tavily_api_key = ''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''"

definition travel_retriever :: tavily_config where
  "travel_retriever =
     \<lparr>tavily_k = 10, search_depth = ''advanced'', include_images = True,
      include_domains = [''tripadvisor.com'', ''lonelyplanet.com'', ''booking.com'', ''airbnb.com'',
        ''expedia.com'', ''kayak.com'', ''skyscanner.com'', ''travelandleisure.com'',
        ''conde nast.com'', ''nomadicmatt.com'']\<rparr>"

definition travel_query :: string where
  "travel_query = ''best hotel in chennai''"

text \<open>\<open>retriever.invoke(query)\<close>: the key is read from the environment when the search
  runs; without it the retriever raises.\<close>

definition retriever_invoke ::
  "(string \<Rightarrow> tavily_config \<Rightarrow> string \<Rightarrow> 'd list result) \<Rightarrow> environ \<Rightarrow> tavily_config \<Rightarrow> string \<Rightarrow> 'd list result" where
  "retriever_invoke api env cfg q =
     (case env ''TAVILY_API_KEY'' of
        None \<Rightarrow> Inl (KeyError ''TAVILY_API_KEY'')
      | Some key \<Rightarrow> api key cfg q)"

definition travel_search_script ::
  "(string \<Rightarrow> tavily_config \<Rightarrow> string \<Rightarrow> 'd list result) \<Rightarrow> environ \<Rightarrow> environ \<times> 'd list result" where
  "travel_search_script api env0 =
     (let env = env0(''TAVILY_API_KEY'' \<mapsto> tavily_api_key);
          retriever = travel_retriever;
          query = travel_query
      in (env, retriever_invoke api env retriever query))"

subsection \<open>Host names\<close>

definition hostname_char :: "char \<Rightarrow> bool" where
  "hostname_char c \<longleftrightarrow>
     (let n = (of_char c :: nat) in
      (48 \<le> n \<and> n \<le> 57) \<or> (65 \<le> n \<and> n \<le> 90) \<or> (97 \<le> n \<and> n \<le> 122) \<or> c = CHR ''-'')"

definition valid_label :: "string \<Rightarrow> bool" where
  "valid_label l \<longleftrightarrow>
     l \<noteq> [] \<and> length l \<le> 63 \<and> list_all hostname_char l \<and>
     hd l \<noteq> CHR ''-'' \<and> last l \<noteq> CHR ''-''"

definition valid_hostname :: "string \<Rightarrow> bool" where
  "valid_hostname h \<longleftrightarrow> length h \<le> 253 \<and> list_all valid_label (py_split_char h CHR ''.'')"


subsection \<open>Lemmas\<close>

lemma set_py_join: "set (py_join sep ws) \<subseteq> set sep \<union> \<Union> (set ` set ws)"
  by (induction sep ws rule: py_join.induct) auto

lemma py_split_char_covers:
  assumes "c \<in> set s" and "c \<noteq> d"
  shows "\<exists>w \<in> set (py_split_char s d). c \<in> set w"
proof -
  have "c \<in> set (py_join [d] (py_split_char s d))" using assms(1) by (simp add: py_join_split_char)
  then show ?thesis using assms(2) set_py_join [of "[d]" "py_split_char s d"] by auto
qed

lemma valid_hostname_no_space: "SP \<in> set h \<Longrightarrow> \<not> valid_hostname h"
proof
  assume sp: "SP \<in> set h" and v: "valid_hostname h"
  obtain w where w: "w \<in> set (py_split_char h CHR ''.'')" "SP \<in> set w"
    using py_split_char_covers [OF sp] by auto
  with v have "list_all hostname_char w" by (auto simp: valid_hostname_def valid_label_def list_all_iff)
  with w(2) show False by (auto simp: list_all_iff hostname_char_def)
qed

section \<open>The domain list\<close>

text \<open>The computation behind the finding on the script: exactly one domain of the configuration is not a host name: \<open>conde nast.com\<close>
  holds a space, so the restriction names no site the search can match.\<close>

lemma travel_domains_invalid:
  "filter (\<lambda>d. \<not> valid_hostname d) (include_domains travel_retriever) = [''conde nast.com'']"
proof -
  have bad: "\<not> valid_hostname ''conde nast.com''" by (rule valid_hostname_no_space) simp
  show ?thesis
    using bad by (simp add: travel_retriever_def valid_hostname_def valid_label_def hostname_char_def)
qed

end
