(* ===== verification/Spec2Isabelle.thy ===== *)
theory Spec2Isabelle
  imports MarketTrend DeltaNormalizer Scraper Embeddings TavilySearch
begin

text \<open>
  \<^bold>\<open>A verification library for the GenAiSnippets repository.\<close>

  \<^medskip>
  \<^bold>\<open>The program.\<close> \<open>src/marketTrend.py\<close> is a script: it formats a
  question-generation prompt for a topic, asks a language model for ten questions,
  runs a Tavily news search for each (k = 2), collects the first two articles of every
  search, has the model summarise them, looks the summary up in a Chroma vector store,
  and hands the metadata of the best match to \<open>apply_instrument_deltas\<close>, which
  applies percentage deltas to the instrument weights of a CSV of client strategies
  and renormalises every row to 100.  \<open>src/scrap.py\<close> scrapes a theory page with a
  headless browser, \<open>src/intfloat-...-wrapupinlangchain.py\<close> wraps a Hugging Face
  embedding endpoint, \<open>src/travilySearch.py\<close> configures a search retriever.

  \<^medskip>
  \<^bold>\<open>Theories.\<close>
  \<^item> \<open>Prelude\<close>: Python exceptions as values (\<open>py_error\<close>, the result type
    \<open>py_error + 'a\<close>, \<open>bind_res\<close> for consecutive statements, \<open>traverse_res\<close>
    for a comprehension whose element may raise, \<open>py_getitem\<close> for \<open>xs[i]\<close>),
    and the lemmas on them the components share.
  \<^item> \<open>PyStr\<close>: the Python string builtins the code calls (\<open>strip\<close>,
    \<open>rstrip(chars)\<close>, \<open>split(sep)\<close>, \<open>join\<close>, \<open>in\<close>, \<open>startswith\<close>,
    \<open>replace\<close>, \<open>re.sub\<close> of a run of one character, \<open>str.format\<close> with one
    keyword field, the last a \<open>function\<close> with its termination proof), as executable
    functions with the algebra the scraper's proofs use.
  \<^item> \<open>PyFloat\<close>: Python's \<open>float(s)\<close> on strings (sign, digits with single
    underscores between them, fraction, exponent, surrounding white space), which
    \<open>astype(float)\<close> applies to text cells.
  \<^item> \<open>Frame\<close>: the subset of pandas that \<open>apply_instrument_deltas\<close> calls.  A
    DataFrame is a record of a row count and an association list of named columns; a
    cell is a float (modelled as an exact real) or a string.  \<open>df[c]\<close> is
    \<open>frame_getitem\<close> (KeyError), \<open>df[c] = v\<close> is \<open>frame_setitem\<close> (replace in
    place or append, as pandas does), \<open>df[cols]\<close> is \<open>frame_select\<close>,
    \<open>astype(float)\<close>, \<open>sum(axis=1)\<close> and \<open>replace(0, 1.0)\<close> are
    \<open>astype_float\<close>, \<open>frame_sum_rows\<close>, \<open>series_replace\<close>.  The invariant
    \<open>frame_wf\<close> (distinct column names, every column \<open>nrows\<close> long) is kept by
    every operation.
  \<^item> \<open>DeltaNormalizer\<close>: \<open>apply_instrument_deltas\<close> (marketTrend.py, lines
    136--177) statement by statement: \<open>instrument_cols\<close>, the key check
    \<open>missing_keys\<close>, the \<open>_adj\<close> loop \<open>apply_deltas_loop\<close>, the row totals,
    the \<open>_final\<close> loop \<open>finalize_loop\<close> and the final selection.  Beside it the
    contract of the spec: \<open>normalize_row\<close> maps one row of instrument weights to
    its adjusted and renormalised row.  The lemmas prove the refinement
    (C1: on every \<open>valid_table\<close> the code returns \<open>expected_output\<close>, whose rows
    are \<open>normalize_row\<close> of the input rows), its consequences (C2 rows sum to 100,
    C4 a zero-total row is scaled by 100 instead of renormalised, C5 zero deltas are
    the identity, C6 non-negativity) and the error paths (C3 unknown delta keys, C7 no
    \<open>Client Type\<close> column); two evaluations in the kernel back the findings on
    column-name collisions and on deltas below -100 percent.
  \<^item> \<open>JsonDump\<close>: \<open>json.dump(..., ensure_ascii=False, indent=2)\<close> of JSON values
    (\<open>json_dumps\<close>) and a reader \<open>json_loads\<close> (lexer, then a parser whose fuel is
    the token count), with the round trip \<open>json_loads (json_dumps v) = Some v\<close>, used
    to state what the scraper's file holds.
  \<^item> \<open>Scraper\<close>: \<open>scrape_theory_content\<close> of \<open>src/scrap.py\<close> with the file system
    as explicit state, over a \<open>browser\<close> parameter: whether \<open>launch\<close>/\<open>new_page\<close>
    (lines 9--10, outside the \<open>try\<close>) raise, the page after the awaited calls inside
    the \<open>try\<close> (\<open>None\<close> when one raises), and whether the status prints of lines
    117--122 raise.  The dict of a loaded page is \<open>page_result\<close>: the URL loop
    (\<open>url_parts\<close>, \<open>skip_part\<close>, \<open>clean_part\<close>, \<open>find_parent_topic\<close>), the two
    page scripts (\<open>js_theory_text\<close>, \<open>extract_image_urls\<close> with
    \<open>normalize_src\<close> and the insertion-ordered set \<open>js_set_add\<close>) and the
    whitespace cleanup \<open>clean_content\<close>.  The lemmas show the returned text free of
    tabs, double spaces, triple newlines and outer white space (C15), white-space text
    stored as \<open>''\<close> rather than \<open>'None'\<close> (C16), the file written before the
    prints, so that a failing print returns \<open>None\<close> with the file in place (C17),
    the URL loop as "the first two candidates" (C18), the dead \<open>'#!/'\<close> replacement
    (C19), and http image URLs (C20); two evaluations back the findings on the topic of
    the script's own URL and on protocol-relative sources.
  \<^item> \<open>Embeddings\<close>: \<open>HFInferenceEmbeddings\<close> over an interface record
    \<open>hf_server\<close> (the HTTP endpoint and the numpy conversion), with the log of sent
    requests threaded as state.  The lemmas show which requests \<open>embed_documents\<close>
    sends (in order, up to the first failure, C21) and the status handling of
    \<open>raise_for_status\<close> (C22); an evaluation backs the finding that the module stops
    with \<open>NameError\<close> at line 8.
  \<^item> \<open>TavilySearch\<close>: \<open>src/travilySearch.py\<close> as \<open>travel_search_script\<close>: the
    environment update of line 3, the retriever configuration \<open>travel_retriever\<close>
    and the invocation over a search-service parameter; an evaluation backs the
    finding that one configured domain is not a host name.
  \<^item> \<open>MarketTrend\<close>: the parts of marketTrend.py that the script composes: the
    documents and the interface record \<open>services\<close>, \<open>GeneratedQuestions\<close> with its
    pydantic validation \<open>validate_questions\<close> and the attribute read of line 62
    (\<open>structured_questions\<close>), the prompt of lines 10--55, and the news loop
    \<open>collect_news\<close> of lines 86--93 with its closed form (C14).
  \<^item> \<open>Spec2Isabelle\<close> (this theory): the script of marketTrend.py as the function
    \<open>market_trend\<close> over an interface record \<open>services\<close> (the structured question
    generator, whose output is \<open>None\<close> or a JSON value validated into
    \<open>GeneratedQuestions\<close>; search; summariser; retriever), returning the log of
    language-model calls and the result or exception.  Its lemmas show the prompt is
    sent unformatted (C8), what a successful run computed (C9), the two ways the glue
    code fails on inputs the services may legitimately return (C10, C11), that a run
    whose services behave reaches the normalised table (C12), and where a bad
    structured output stops the run (C13).

  \<^medskip>
  \<^bold>\<open>Modelling choices.\<close> Floats are exact reals: rounding and NaN are not
  modelled, so the theorems about sums hold of the exact computation that the
  float code approximates; \<open>replace(0, 1.0)\<close> compares with exact zero as the
  code does.  CSV input and output are the frame the function receives and returns.
  The language model, the search engine and the vector store are arbitrary functions,
  so every theorem about \<open>market_trend\<close> holds whatever they return; the metadata
  of a document is typed as a list of (string, number) pairs, so non-numeric metadata
  values (a \<open>TypeError\<close> at line 160) are outside the model.  No loop of
  the modelled code can run forever: every loop is over a finite list and every
  recursive definition has a termination proof, so the code needs no fuel.  The JSON
  reader takes the number of tokens as fuel, which is enough because every parser call
  consumes a token (\<open>JsonDump.parse_json_tokens\<close>).  Python's \<open>float()\<close> is
  modelled on its decimal grammar; \<open>inf\<close>, \<open>nan\<close> and non-ASCII digits are
  outside the model.

  \<^medskip>
  Python strings are lists of 8-bit characters: the texts the code handles are
  Latin-1, and \<open>str.isspace\<close> is modelled on that range.

  \<^medskip>
  \<^bold>\<open>Not modelled.\<close> The text that is printed (the scraper's status prints are
  modelled only as the point where they may raise), the CSV file \<open>to_csv\<close> writes,
  failures of the file system, \<open>browser.close\<close>, the browser automation of scrap.py
  below the page state, the timeouts and waits, HTTP transport, numpy's float32
  conversion (a parameter of the server), the \<open>os.environ\<close> update of
  marketTrend.py line 67 and the construction of the Chroma store (the store is the
  \<open>retrieve\<close> field), the formatting of the summary prompt (the summariser receives
  the news list), the \<open>azuremodels\<close> module (not in the repository; its objects are
  parameters), and \<open>main\<close> of scrap.py with its preview prints (135--146).
\<close>

section \<open>The market-trend pipeline of \<open>src/marketTrend.py\<close>\<close>

text \<open>
  The script asks a language model for ten questions, runs a news search for each,
  takes the first two articles of every search, has the model summarise them, looks the
  summary up in a vector store, and uses the metadata of the best match as the delta
  dictionary of \<open>apply_instrument_deltas\<close>. The language model, the search
  retriever and the vector store are external services: they are the fields of the
  record \<open>services\<close>, and the pipeline is a composition over any such services.
  The calls made to the language model are returned in order, as the observable
  effect of the run, with the exception or the updated strategy table.
\<close>

definition market_trend :: "services \<Rightarrow> frame \<Rightarrow> llm_call list \<times> frame result" where
  "market_trend svc df =
     (case py_format1 question_prompt ''USER_TOPIC'' user_topic of
        Inl e \<Rightarrow> ([], Inl e)
      | Inr _ \<Rightarrow>
          (case structured_questions (gen_questions svc question_prompt) of
             Inl e \<Rightarrow> ([QuestionsCall question_prompt], Inl e)
           | Inr generated \<Rightarrow>
               (let qs = questions generated;
                    results = map (search svc) qs
                in case collect_news results of
                     Inl e \<Rightarrow> ([QuestionsCall question_prompt], Inl e)
                   | Inr newslist \<Rightarrow>
                       ([QuestionsCall question_prompt, SummaryCall newslist],
                        bind_res (py_getitem (retrieve svc (summarize svc newslist)) 0)
                          (\<lambda>d. apply_instrument_deltas df (metadata d))))))"

text \<open>
  The collected news of a run whose searches all succeed, and example services: one
  whose search finds a single article, one that finds two and whose vector store
  returns a document with delta metadata, and one whose best match carries a
  \<open>source\<close> key.
\<close>

definition asked_questions :: "services \<Rightarrow> generated_questions result" where
  "asked_questions svc = structured_questions (gen_questions svc question_prompt)"

definition newslist_of :: "services \<Rightarrow> string list \<Rightarrow> string list" where
  "newslist_of svc qs = concat (map (\<lambda>q. [page_content (search svc q ! 0), page_content (search svc q ! 1)]) qs)"

definition demo_services :: services where
  "demo_services = \<lparr>gen_questions = (\<lambda>p. Some (JObj [(''questions'', JArr [JStr ''How are central banks moving rates?''])])),
     search = (\<lambda>q. [\<lparr>page_content = ''Rates held.'', metadata = []\<rparr>]),
     summarize = (\<lambda>ns. concat ns), retrieve = (\<lambda>s. [])\<rparr>"

definition match_services :: services where
  "match_services = \<lparr>gen_questions = (\<lambda>p. Some (JObj [(''questions'', JArr [JStr ''How are central banks moving rates?''])])),
     search = (\<lambda>q. [\<lparr>page_content = ''Rates held.'', metadata = []\<rparr>,
                     \<lparr>page_content = ''Yields fell.'', metadata = []\<rparr>]),
     summarize = (\<lambda>ns. concat ns),
     retrieve = (\<lambda>s. [\<lparr>page_content = ''risk-on'', metadata = [(''A'', 10)]\<rparr>])\<rparr>"

definition prose_services :: services where
  "prose_services = match_services\<lparr>gen_questions := (\<lambda>p. Some (JObj [(''questions'', JStr ''How are rates moving?'')]))\<rparr>"

definition source_services :: services where
  "source_services = match_services\<lparr>retrieve := (\<lambda>s. [\<lparr>page_content = ''risk-on'', metadata = [(''source'', 1)]\<rparr>])\<rparr>"

subsection \<open>Properties of the pipeline\<close>

lemma market_trend_unfold:
  "market_trend svc df =
     (case asked_questions svc of
        Inl e \<Rightarrow> ([QuestionsCall question_prompt], Inl e)
      | Inr g \<Rightarrow>
          (if list_all (\<lambda>q. 2 \<le> length (search svc q)) (questions g) then
             ([QuestionsCall question_prompt, SummaryCall (newslist_of svc (questions g))],
              case retrieve svc (summarize svc (newslist_of svc (questions g))) of
                [] \<Rightarrow> Inl IndexError
              | d # ds \<Rightarrow> apply_instrument_deltas df (metadata d))
           else ([QuestionsCall question_prompt], Inl IndexError)))"
  by (simp add: market_trend_def asked_questions_def question_prompt_format collect_news_eq
      newslist_of_def Let_def comp_def py_getitem_def list.pred_map split: list.splits sum.split)

text \<open>C8. The question prompt is sent unformatted: line 57 formats the template and discards the result, so the first call to the language model carries the template itself, which still contains the placeholder {USER_TOPIC}, whereas the formatted text (which the call would have produced without error) holds the topic instead.\<close>

theorem market_trend_prompt_unformatted:
  "(\<exists>calls. fst (market_trend svc df) = QuestionsCall question_prompt # calls) \<and>
   py_in ''{USER_TOPIC}'' question_prompt \<and>
   py_format1 question_prompt ''USER_TOPIC'' user_topic = Inr (prompt_head @ user_topic @ prompt_tail) \<and>
   question_prompt \<noteq> prompt_head @ user_topic @ prompt_tail"
proof (intro conjI)
  show "\<exists>calls. fst (market_trend svc df) = QuestionsCall question_prompt # calls"
    by (simp add: market_trend_unfold split: sum.split)
  show "py_in ''{USER_TOPIC}'' question_prompt"
    unfolding question_prompt_def by (rule py_in_middle)
  show "py_format1 question_prompt ''USER_TOPIC'' user_topic = Inr (prompt_head @ user_topic @ prompt_tail)"
    by (rule question_prompt_format)
  show "question_prompt \<noteq> prompt_head @ user_topic @ prompt_tail"
    by (simp add: question_prompt_def user_topic_def)
qed

text \<open>C10. If any search returns fewer than two articles, the run stops with IndexError after the question call, before the summary is requested.\<close>

theorem market_trend_short_search:
  assumes "asked_questions svc = Inr g" and "q \<in> set (questions g)" and "length (search svc q) < 2"
  shows "market_trend svc df = ([QuestionsCall question_prompt], Inl IndexError)"
proof -
  have "\<not> list_all (\<lambda>q. 2 \<le> length (search svc q)) (questions g)"
    using assms(2,3) unfolding list_all_iff by (metis not_le)
  then show ?thesis using assms(1) by (simp add: market_trend_unfold)
qed

theorem market_trend_short_search_witness:
  "asked_questions demo_services = Inr \<lparr>questions = [''How are central banks moving rates?'']\<rparr> \<and>
   length (search demo_services ''How are central banks moving rates?'') < 2 \<and>
   market_trend demo_services example_table = ([QuestionsCall question_prompt], Inl IndexError)"
proof -
  have a: "asked_questions demo_services = Inr \<lparr>questions = [''How are central banks moving rates?'']\<rparr>"
    by (simp add: asked_questions_def demo_services_def structured_questions_def validate_questions_def)
  have q: "''How are central banks moving rates?'' \<in> set (questions \<lparr>questions = [''How are central banks moving rates?'']\<rparr>)"
    by simp
  have s: "length (search demo_services ''How are central banks moving rates?'') < 2"
    by (simp add: demo_services_def)
  show ?thesis using a s market_trend_short_search [OF a q s] by simp
qed

text \<open>C9. A run that returns a table made both language-model calls (questions, then the summary of the collected news), every search returned at least two articles, and the table is apply_instrument_deltas of the input with the metadata of the first document the vector store returned as delta dictionary.\<close>

theorem market_trend_result:
  assumes "snd (market_trend svc df) = Inr out"
  shows "\<exists>g. asked_questions svc = Inr g \<and>
             list_all (\<lambda>q. 2 \<le> length (search svc q)) (questions g) \<and>
             fst (market_trend svc df) = [QuestionsCall question_prompt, SummaryCall (newslist_of svc (questions g))] \<and>
             (\<exists>d ds. retrieve svc (summarize svc (newslist_of svc (questions g))) = d # ds \<and>
                     apply_instrument_deltas df (metadata d) = Inr out)"
  using assms by (auto simp: market_trend_unfold split: if_splits list.splits sum.splits)

theorem market_trend_result_witness:
  "snd (market_trend match_services example_table) =
     Inr \<lparr>nrows = 1, cols = [(''Client Type'', [Str ''Conservative'']),
       (''A_final'', [Num (1100/21)]), (''B_final'', [Num (200/7)]), (''C_final'', [Num (400/21)])]\<rparr> \<and>
   apply_instrument_deltas example_table [(''A'', 10)] =
     Inr \<lparr>nrows = 1, cols = [(''Client Type'', [Str ''Conservative'']),
       (''A_final'', [Num (1100/21)]), (''B_final'', [Num (200/7)]), (''C_final'', [Num (400/21)])]\<rparr>"
proof -
  have a: "apply_instrument_deltas example_table [(''A'', 10)] =
     Inr \<lparr>nrows = 1, cols = [(''Client Type'', [Str ''Conservative'']),
       (''A_final'', [Num (1100/21)]), (''B_final'', [Num (200/7)]), (''C_final'', [Num (400/21)])]\<rparr>"
    by (simp add: example_table_def delta_eval_simps)
  have m: "snd (market_trend match_services example_table) =
     Inr \<lparr>nrows = 1, cols = [(''Client Type'', [Str ''Conservative'']),
       (''A_final'', [Num (1100/21)]), (''B_final'', [Num (200/7)]), (''C_final'', [Num (400/21)])]\<rparr>"
    using a by (simp add: market_trend_unfold asked_questions_def match_services_def structured_questions_def validate_questions_def)
  show ?thesis using m a market_trend_result [OF m] by simp
qed

text \<open>C11. If the metadata of the best vector-store match holds a key that is not an instrument column (a document source, say), the run fails with the ValueError listing the unknown keys.\<close>

theorem market_trend_metadata_not_column:
  assumes "asked_questions svc = Inr g" and "list_all (\<lambda>q. 2 \<le> length (search svc q)) (questions g)"
    and "retrieve svc (summarize svc (newslist_of svc (questions g))) = d # ds"
    and "missing_keys (metadata d) (instrument_cols df) \<noteq> []"
  shows "snd (market_trend svc df) = Inl (DeltaKeysNotFound (missing_keys (metadata d) (instrument_cols df)))"
  using assms by (simp add: market_trend_unfold apply_instrument_deltas_def Let_def)

theorem market_trend_metadata_not_column_witness:
  "asked_questions source_services = Inr \<lparr>questions = [''How are central banks moving rates?'']\<rparr> \<and>
   list_all (\<lambda>q. 2 \<le> length (search source_services q)) [''How are central banks moving rates?''] \<and>
   retrieve source_services (summarize source_services (newslist_of source_services [''How are central banks moving rates?''])) =
     [\<lparr>page_content = ''risk-on'', metadata = [(''source'', 1)]\<rparr>] \<and>
   missing_keys [(''source'', 1)] (instrument_cols example_table) \<noteq> [] \<and>
   snd (market_trend source_services example_table) = Inl (DeltaKeysNotFound [''source''])"
proof -
  have a: "asked_questions source_services = Inr \<lparr>questions = [''How are central banks moving rates?'']\<rparr>"
    by (simp add: asked_questions_def source_services_def match_services_def structured_questions_def validate_questions_def)
  have l: "list_all (\<lambda>q. 2 \<le> length (search source_services q))
      (questions \<lparr>questions = [''How are central banks moving rates?'']\<rparr>)"
    by (simp add: source_services_def match_services_def)
  have r: "retrieve source_services (summarize source_services
      (newslist_of source_services (questions \<lparr>questions = [''How are central banks moving rates?'']\<rparr>))) =
     \<lparr>page_content = ''risk-on'', metadata = [(''source'', 1)]\<rparr> # []"
    by (simp add: source_services_def)
  have m: "missing_keys (metadata \<lparr>page_content = ''risk-on'', metadata = [(''source'', 1)]\<rparr>) (instrument_cols example_table) = [''source'']"
    by (simp add: missing_keys_def example_table_def instrument_cols_def frame_columns_def)
  then have m': "missing_keys (metadata \<lparr>page_content = ''risk-on'', metadata = [(''source'', 1)]\<rparr>) (instrument_cols example_table) \<noteq> []"
    by simp
  show ?thesis using a l r m m' market_trend_metadata_not_column [OF a l r m'] by simp
qed

text \<open>C12. Composition of the pipeline with the normaliser: when every search returns at
  least two articles, the vector store returns a match, and the match's metadata is a
  valid delta dictionary for the table, the run gets through both language-model calls
  and returns the normalised table of \<open>apply_instrument_deltas\<close>.\<close>

theorem market_trend_progress:
  assumes "asked_questions svc = Inr g" and "list_all (\<lambda>q. 2 \<le> length (search svc q)) (questions g)"
    and "retrieve svc (summarize svc (newslist_of svc (questions g))) = d # ds"
    and "valid_table df (metadata d)"
  shows "market_trend svc df =
           ([QuestionsCall question_prompt, SummaryCall (newslist_of svc (questions g))],
            Inr (expected_output df (metadata d)))"
  using assms by (simp add: market_trend_unfold apply_instrument_deltas_output)

theorem market_trend_progress_witness:
  "asked_questions match_services = Inr \<lparr>questions = [''How are central banks moving rates?'']\<rparr> \<and>
   list_all (\<lambda>q. 2 \<le> length (search match_services q)) [''How are central banks moving rates?''] \<and>
   retrieve match_services (summarize match_services (newslist_of match_services [''How are central banks moving rates?''])) =
     [\<lparr>page_content = ''risk-on'', metadata = [(''A'', 10)]\<rparr>] \<and>
   valid_table example_table [(''A'', 10)] \<and>
   snd (market_trend match_services example_table) = Inr (expected_output example_table [(''A'', 10)])"
proof -
  have a: "asked_questions match_services = Inr \<lparr>questions = [''How are central banks moving rates?'']\<rparr>"
    by (simp add: asked_questions_def match_services_def structured_questions_def validate_questions_def)
  have s: "list_all (\<lambda>q. 2 \<le> length (search match_services q))
      (questions \<lparr>questions = [''How are central banks moving rates?'']\<rparr>)"
    by (simp add: match_services_def)
  have r: "retrieve match_services (summarize match_services
      (newslist_of match_services (questions \<lparr>questions = [''How are central banks moving rates?'']\<rparr>))) =
     [\<lparr>page_content = ''risk-on'', metadata = [(''A'', 10)]\<rparr>]"
    by (simp add: match_services_def)
  have v: "valid_table example_table [(''A'', 10)]"
    by (simp add: example_table_def table_eval_simps)
  show ?thesis using a s r v market_trend_progress [OF a s r] by simp
qed

text \<open>C13. When the structured call does not yield a \<open>GeneratedQuestions\<close> (its output
  is not an object, or its \<open>questions\<close> is missing, not a list, or holds a non-string,
  and pydantic raises \<open>ValidationError\<close>; or the model made no tool call, the call
  returned \<open>None\<close> and line 62 raises \<open>AttributeError\<close>), the run stops with that
  exception right after the question call: no search is made and no summary is requested.\<close>

theorem market_trend_invalid_questions:
  assumes "asked_questions svc = Inl e"
  shows "market_trend svc df = ([QuestionsCall question_prompt], Inl e) \<and>
         ((\<exists>loc. e = ValidationError loc) \<or>
          (gen_questions svc question_prompt = None \<and> e = AttributeError ''questions''))"
  using assms structured_questions_Inl [of "gen_questions svc question_prompt" e]
  by (simp add: market_trend_unfold asked_questions_def)

theorem market_trend_invalid_questions_witness:
  "asked_questions prose_services = Inl (ValidationError ''questions'') \<and>
   market_trend prose_services example_table = ([QuestionsCall question_prompt], Inl (ValidationError ''questions''))"
proof -
  have a: "asked_questions prose_services = Inl (ValidationError ''questions'')"
    by (simp add: asked_questions_def prose_services_def match_services_def structured_questions_def validate_questions_def)
  show ?thesis using a market_trend_invalid_questions [OF a] by simp
qed

end
